theory Spec2Isabelle
  imports Main "HOL-Library.AList"
begin

section \<open>Data model\<close>

text \<open>
  The development embeds the agent runner of the repository: the turn loop of
  \<^verbatim>\<open>runner.go\<close>, the guardrail pipeline, the tool dispatch with its handoff
  convention and the two session stores of package \<^verbatim>\<open>session\<close>.

  Conventions of the embedding.
  \<^item> A pointer to a struct is modelled by the struct value; a nil pointer, where the code
    tests for one, is \<open>None\<close> of an option type.
  \<^item> Go's \<^verbatim>\<open>int\<close>, \<^verbatim>\<open>int64\<close> and \<^verbatim>\<open>time.Duration\<close> are modelled
    by \<open>int\<close>: token counts and turn counters stay far below \<open>2 ^ 63\<close>.
  \<^item> Wall-clock durations recorded in \<^verbatim>\<open>Step\<close> and \<^verbatim>\<open>ToolCall\<close> are left out.
  \<^item> Collaborators outside the repository (the completion service, the JSON codec, the
    file system, the clock, \<^verbatim>\<open>fmt\<close>'s rendering of a message) are parameters,
    collected in records of functions.
\<close>

subsection \<open>Guardrail results and error values\<close>

text \<open>\<^verbatim>\<open>guardrail.Result\<close> (guardrail/guardrail.go).\<close>

record guardrail_Result =
  Passed :: bool
  TripwireTriggered :: bool
  Message :: string
  Metadata :: "(string \<times> string) list"

text \<open>
  Go error values. The sentinels of package \<^verbatim>\<open>agents\<close> and of package \<^verbatim>\<open>context\<close>
  are compared by identity in the code, hence constructors of their own. \<open>Wrapf p e\<close> is
  \<^verbatim>\<open>fmt.Errorf(p + "%w", e)\<close>. The runner declares a type \<^verbatim>\<open>NotFoundError\<close> of its
  own in package \<^verbatim>\<open>agents\<close> (runner.go, lines 20-28), distinct from the type of the
  same name in package \<^verbatim>\<open>session\<close> that the two stores return:
  they are two constructors. \<open>RuntimePanic\<close> stands for a run that panics instead of
  returning.
\<close>

datatype error =
    ErrorString string
  | ErrMaxTurnsExceeded
  | ErrTimeout
  | ErrNoMessages
  | Canceled
  | DeadlineExceeded
  | ErrNotExist
  | Wrapf string error
  | ToolExecutionError string error
  | AgentsNotFoundError string
  | SessionNotFoundError string
  | StorageError string string error
  | InputGuardrailTripwireError string string guardrail_Result
  | OutputGuardrailTripwireError string string guardrail_Result
  | RuntimePanic string

text \<open>The method \<^verbatim>\<open>Error()\<close> of each error value.\<close>

fun error_text :: "error \<Rightarrow> string" where
  "error_text (ErrorString s) = s"
| "error_text ErrMaxTurnsExceeded = ''max turns exceeded''"
| "error_text ErrTimeout = ''agent execution timeout''"
| "error_text ErrNoMessages = ''no messages provided''"
| "error_text Canceled = ''context canceled''"
| "error_text DeadlineExceeded = ''context deadline exceeded''"
| "error_text ErrNotExist = ''file does not exist''"
| "error_text (Wrapf p e) = p @ error_text e"
| "error_text (ToolExecutionError n e) = ''tool '' @ n @ '' failed: '' @ error_text e"
| "error_text (AgentsNotFoundError sid) = ''session '' @ [CHR 0x27] @ sid @ [CHR 0x27] @ '' not found''"
| "error_text (SessionNotFoundError sid) = ''session '' @ [CHR 0x27] @ sid @ [CHR 0x27] @ '' not found''"
| "error_text (StorageError sid opn e) =
     ''session '' @ [CHR 0x27] @ sid @ [CHR 0x27] @ '' '' @ opn @ '' failed: '' @ error_text e"
| "error_text (InputGuardrailTripwireError n m r) =
     (if m \<noteq> [] then ''input guardrail '' @ [CHR 0x27] @ n @ [CHR 0x27] @ '' triggered: '' @ m
      else ''input guardrail '' @ [CHR 0x27] @ n @ [CHR 0x27] @ '' triggered'')"
| "error_text (OutputGuardrailTripwireError n m r) =
     (if m \<noteq> [] then ''output guardrail '' @ [CHR 0x27] @ n @ [CHR 0x27] @ '' triggered: '' @ m
      else ''output guardrail '' @ [CHR 0x27] @ n @ [CHR 0x27] @ '' triggered'')"
| "error_text (RuntimePanic s) = s"

subsection \<open>Messages\<close>

text \<open>
  \<^verbatim>\<open>openai.ChatCompletionMessageToolCall\<close>: the identifier of the call, the name of the
  function and its arguments, a JSON text.
\<close>

datatype ToolCallRequest = ToolCallRequest (tcID: string) (fnName: string) (fnArguments: string)

text \<open>\<^verbatim>\<open>openai.ChatCompletionMessage\<close>, the assistant's reply.\<close>

record ChatCompletionMessage =
  Content :: string
  Refusal :: string
  MessageToolCalls :: "ToolCallRequest list"

text \<open>
  \<^verbatim>\<open>openai.ChatCompletionMessageParamUnion\<close>. \<open>AssistantMessage m\<close> is
  \<^verbatim>\<open>m.ToParam()\<close>; \<open>ToolMessage c i\<close> is \<^verbatim>\<open>openai.ToolMessage(c, i)\<close>.
\<close>

datatype MessageParam =
    SystemMessage string
  | UserMessage string
  | AssistantMessage ChatCompletionMessage
  | ToolMessage string string

section \<open>Session stores\<close>

subsection \<open>The volatile store (session/memory.go)\<close>

type_synonym MemorySession = "string \<rightharpoonup> MessageParam list"

definition NewMemorySession :: MemorySession where
  "NewMemorySession = Map.empty"

definition MemorySession_Get :: "MemorySession \<Rightarrow> string \<Rightarrow> error + MessageParam list" where
  "MemorySession_Get m sessionID =
     (case m sessionID of
        None \<Rightarrow> Inl (SessionNotFoundError sessionID)
      | Some messages \<Rightarrow> Inr messages)"

definition MemorySession_Append ::
  "MemorySession \<Rightarrow> string \<Rightarrow> MessageParam list \<Rightarrow> error option \<times> MemorySession" where
  "MemorySession_Append m sessionID messages =
     (let m1 = (if m sessionID = None then m(sessionID \<mapsto> []) else m)
      in (None, m1(sessionID \<mapsto> the (m1 sessionID) @ messages)))"

definition MemorySession_Clear :: "MemorySession \<Rightarrow> string \<Rightarrow> error option \<times> MemorySession" where
  "MemorySession_Clear m sessionID =
     (if m sessionID = None then (Some (SessionNotFoundError sessionID), m)
      else (None, m(sessionID \<mapsto> [])))"

definition MemorySession_Delete :: "MemorySession \<Rightarrow> string \<Rightarrow> error option \<times> MemorySession" where
  "MemorySession_Delete m sessionID =
     (if m sessionID = None then (Some (SessionNotFoundError sessionID), m)
      else (None, m(sessionID := None)))"

subsection \<open>The durable store (session/file.go)\<close>

text \<open>
  The file system is a map from paths to contents, together with the paths on which an
  operation of package \<^verbatim>\<open>os\<close> fails for a reason other than a missing file
  (permissions, a missing directory, a full disk).
\<close>

record filesys =
  files :: "string \<rightharpoonup> string"
  read_faults :: "string set"
  write_faults :: "string set"
  rename_faults :: "string set"
  remove_faults :: "string set"

definition os_ReadFile :: "filesys \<Rightarrow> string \<Rightarrow> error + string" where
  "os_ReadFile fs path =
     (if path \<in> read_faults fs then Inl (ErrorString ''read failed'')
      else case files fs path of None \<Rightarrow> Inl ErrNotExist | Some data \<Rightarrow> Inr data)"

definition os_IsNotExist :: "error \<Rightarrow> bool" where
  "os_IsNotExist e = (e = ErrNotExist)"

text \<open>\<^verbatim>\<open>os.Stat\<close>, of which the code only reads the error.\<close>

definition os_Stat :: "filesys \<Rightarrow> string \<Rightarrow> error option" where
  "os_Stat fs path = (if files fs path = None then Some ErrNotExist else None)"

definition os_WriteFile :: "filesys \<Rightarrow> string \<Rightarrow> string \<Rightarrow> error option \<times> filesys" where
  "os_WriteFile fs path data =
     (if path \<in> write_faults fs then (Some (ErrorString ''write failed''), fs)
      else (None, fs\<lparr>files := (files fs)(path \<mapsto> data)\<rparr>))"

definition os_Rename :: "filesys \<Rightarrow> string \<Rightarrow> string \<Rightarrow> error option \<times> filesys" where
  "os_Rename fs oldpath newpath =
     (if newpath \<in> rename_faults fs then (Some (ErrorString ''rename failed''), fs)
      else case files fs oldpath of
             None \<Rightarrow> (Some ErrNotExist, fs)
           | Some data \<Rightarrow> (None, fs\<lparr>files := ((files fs)(oldpath := None))(newpath \<mapsto> data)\<rparr>))"

definition os_Remove :: "filesys \<Rightarrow> string \<Rightarrow> error option \<times> filesys" where
  "os_Remove fs path =
     (if path \<in> remove_faults fs then (Some (ErrorString ''remove failed''), fs)
      else if files fs path = None then (Some ErrNotExist, fs)
      else (None, fs\<lparr>files := (files fs)(path := None)\<rparr>))"

text \<open>
  The JSON codec of the message list (\<^verbatim>\<open>json.MarshalIndent\<close> and
  \<^verbatim>\<open>json.Unmarshal\<close> on \<^verbatim>\<open>[]openai.ChatCompletionMessageParamUnion\<close>).
\<close>

record json_codec =
  MarshalIndent :: "MessageParam list \<Rightarrow> error + string"
  Unmarshal :: "string \<Rightarrow> error + MessageParam list"

record FileSession =
  basePath :: string
  codec :: json_codec

text \<open>
  \<^verbatim>\<open>filepath.Join\<close> on two components; its lexical cleaning of the result is not
  modelled.
\<close>

definition filepath_Join :: "string \<Rightarrow> string \<Rightarrow> string" where
  "filepath_Join dir name = dir @ ''/'' @ name"

definition sessionPath :: "FileSession \<Rightarrow> string \<Rightarrow> string" where
  "sessionPath f sessionID = filepath_Join (basePath f) (sessionID @ ''.json'')"

definition writeAtomic ::
  "FileSession \<Rightarrow> filesys \<Rightarrow> string \<Rightarrow> MessageParam list \<Rightarrow> error option \<times> filesys" where
  "writeAtomic f fs sessionID messages =
     (case MarshalIndent (codec f) messages of
        Inl e \<Rightarrow> (Some (StorageError sessionID ''marshal'' e), fs)
      | Inr data \<Rightarrow>
          (let tempPath = sessionPath f sessionID @ ''.tmp''
           in case os_WriteFile fs tempPath data of
                (Some e, fs1) \<Rightarrow> (Some (StorageError sessionID ''write'' e), fs1)
              | (None, fs1) \<Rightarrow>
                  (let finalPath = sessionPath f sessionID
                   in case os_Rename fs1 tempPath finalPath of
                        (Some e, fs2) \<Rightarrow>
                          (Some (StorageError sessionID ''rename'' e), snd (os_Remove fs2 tempPath))
                      | (None, fs2) \<Rightarrow> (None, fs2))))"

definition FileSession_Get :: "FileSession \<Rightarrow> filesys \<Rightarrow> string \<Rightarrow> error + MessageParam list" where
  "FileSession_Get f fs sessionID =
     (case os_ReadFile fs (sessionPath f sessionID) of
        Inl e \<Rightarrow>
          (if os_IsNotExist e then Inl (SessionNotFoundError sessionID)
           else Inl (StorageError sessionID ''read'' e))
      | Inr data \<Rightarrow>
          (case Unmarshal (codec f) data of
             Inl e \<Rightarrow> Inl (StorageError sessionID ''unmarshal'' e)
           | Inr messages \<Rightarrow> Inr messages))"

definition FileSession_Append ::
  "FileSession \<Rightarrow> filesys \<Rightarrow> string \<Rightarrow> MessageParam list \<Rightarrow> error option \<times> filesys" where
  "FileSession_Append f fs sessionID messages =
     (case os_ReadFile fs (sessionPath f sessionID) of
        Inr data \<Rightarrow>
          (case Unmarshal (codec f) data of
             Inl e \<Rightarrow> (Some (StorageError sessionID ''unmarshal'' e), fs)
           | Inr existing \<Rightarrow> writeAtomic f fs sessionID (existing @ messages))
      | Inl e \<Rightarrow>
          (if \<not> os_IsNotExist e then (Some (StorageError sessionID ''read'' e), fs)
           else writeAtomic f fs sessionID ([] @ messages)))"

definition FileSession_Clear :: "FileSession \<Rightarrow> filesys \<Rightarrow> string \<Rightarrow> error option \<times> filesys" where
  "FileSession_Clear f fs sessionID =
     (case os_Stat fs (sessionPath f sessionID) of
        Some e \<Rightarrow>
          (if os_IsNotExist e then (Some (SessionNotFoundError sessionID), fs)
           else writeAtomic f fs sessionID [])
      | None \<Rightarrow> writeAtomic f fs sessionID [])"

definition FileSession_Delete :: "FileSession \<Rightarrow> filesys \<Rightarrow> string \<Rightarrow> error option \<times> filesys" where
  "FileSession_Delete f fs sessionID =
     (case os_Stat fs (sessionPath f sessionID) of
        Some e \<Rightarrow>
          (if os_IsNotExist e then (Some (SessionNotFoundError sessionID), fs)
           else (case os_Remove fs (sessionPath f sessionID) of
                   (Some e', fs') \<Rightarrow> (Some (StorageError sessionID ''delete'' e'), fs')
                 | (None, fs') \<Rightarrow> (None, fs')))
      | None \<Rightarrow>
          (case os_Remove fs (sessionPath f sessionID) of
             (Some e', fs') \<Rightarrow> (Some (StorageError sessionID ''delete'' e'), fs')
           | (None, fs') \<Rightarrow> (None, fs')))"

section \<open>Agents, tools and run configuration\<close>

subsection \<open>Usage (types.go)\<close>

record Usage =
  PromptTokens :: int
  CompletionTokens :: int
  TotalTokens :: int

definition Usage_Add :: "Usage \<Rightarrow> Usage \<Rightarrow> Usage" where
  "Usage_Add u other =
     \<lparr>PromptTokens = PromptTokens u + PromptTokens other,
      CompletionTokens = CompletionTokens u + CompletionTokens other,
      TotalTokens = TotalTokens u + TotalTokens other\<rparr>"

text \<open>The zero value of \<^verbatim>\<open>var usage Usage\<close>.\<close>

definition zero_Usage :: Usage where
  "zero_Usage = \<lparr>PromptTokens = 0, CompletionTokens = 0, TotalTokens = 0\<rparr>"

subsection \<open>Structured-output descriptors (internal/jsonschema)\<close>

text \<open>
  Of a schema the runner only calls \<^verbatim>\<open>ToMap\<close>, which fails when the schema cannot be
  marshalled: the schema is modelled by the outcome of that call.
\<close>

record JSONSchemaDef =
  jsName :: string
  jsDescription :: string
  jsStrict :: bool
  jsSchema_ToMap :: "error + string"

record ResponseFormat =
  rfType :: string
  rfJSONSchema :: "JSONSchemaDef option"

subsection \<open>Guardrails (guardrail/guardrail.go)\<close>

record Guardrail =
  grName :: string
  grFunc :: "string \<Rightarrow> error + guardrail_Result"
  RunInParallel :: bool

subsection \<open>Agents and tools (package agents)\<close>

type_synonym float64 = int

type_synonym json_object = "(string \<times> string) list"

type_synonym ContextVariables = "string \<rightharpoonup> string"

text \<open>
  The field \<^verbatim>\<open>Instructions any\<close>: a string, one of the two function shapes (modelled
  by the text the function returns) or any other value.
\<close>

datatype Instructions =
    InstructionsString string
  | InstructionsFunc string
  | InstructionsCtxFunc string
  | InstructionsOther

text \<open>
  A lifecycle callback is invoked once, with the agent it belongs to: it is modelled by
  the error it returns.
\<close>

type_synonym LifecycleFunc = "error option"

text \<open>
  An agent owns tools, a tool's callback returns a value of type \<^verbatim>\<open>any\<close>, and that
  value may be an agent (the handoff convention): the three types are mutually recursive.
  A callback receives the shared context variables by reference and may write them, so it
  returns the updated variables as well. \<open>AnyOther s\<close> is any other value, kept by its
  \<^verbatim>\<open>%v\<close> rendering \<open>s\<close>.
\<close>

datatype Agent = MkAgent
    (Name: string)
    (Model: string)
    (Instructions: Instructions)
    (Tools: "Tool list")
    (ParallelToolCalls: bool)
    (Temperature: "float64 option")
    (MaxTokens: "int option")
    (ResponseFormat: "ResponseFormat option")
    (OnBeforeRun: "LifecycleFunc option")
    (OnAfterRun: "LifecycleFunc option")
    (InputGuardrails: "Guardrail list")
    (OutputGuardrails: "Guardrail list")
and Tool = MkTool
    (tName: string)
    (Description: string)
    (Parameters: "json_object option")
    (Callback: "(json_object \<Rightarrow> ContextVariables \<Rightarrow> (any \<times> error option) \<times> ContextVariables) option")
and any =
    AnyNil
  | AnyString string
  | AnyAgent Agent
  | AnyOther string

definition DefaultModel :: string where
  "DefaultModel = ''gpt-4o''"

definition DefaultInstructions :: string where
  "DefaultInstructions = ''You are a helpful agent.''"

definition NewAgent :: "string \<Rightarrow> Agent" where
  "NewAgent name =
     MkAgent name DefaultModel (InstructionsString DefaultInstructions) [] True
       None None None None None [] []"

fun GetInstructions :: "Agent \<Rightarrow> string" where
  "GetInstructions a =
     (case Instructions a of
        InstructionsString v \<Rightarrow> v
      | InstructionsFunc v \<Rightarrow> v
      | InstructionsCtxFunc v \<Rightarrow> v
      | InstructionsOther \<Rightarrow> DefaultInstructions)"

text \<open>\<^verbatim>\<open>IsHandoff\<close>: the type assertion \<^verbatim>\<open>result.(*Agent)\<close>.\<close>

fun IsHandoff :: "any \<Rightarrow> Agent option" where
  "IsHandoff (AnyAgent a) = Some a"
| "IsHandoff AnyNil = None"
| "IsHandoff (AnyString s) = None"
| "IsHandoff (AnyOther s) = None"

text \<open>
  \<^verbatim>\<open>fmt.Sprintf("%v", x)\<close> on a list of strings and on a tool result. The rendering of
  an agent pointer is abridged to its first two fields.
\<close>

fun join_space :: "string list \<Rightarrow> string" where
  "join_space [] = []"
| "join_space [x] = x"
| "join_space (x # y # ys) = x @ '' '' @ join_space (y # ys)"

definition Sprint_strings :: "string list \<Rightarrow> string" where
  "Sprint_strings xs = ''['' @ join_space xs @ '']''"

fun Sprint_any :: "any \<Rightarrow> string" where
  "Sprint_any AnyNil = ''<nil>''"
| "Sprint_any (AnyString s) = s"
| "Sprint_any (AnyOther s) = s"
| "Sprint_any (AnyAgent a) = ''&{'' @ Name a @ '' '' @ Model a @ ''}''"

subsection \<open>Steps and results (types.go)\<close>

record ToolCall =
  ToolName :: string
  Arguments :: string
  Result :: any
  Error :: "error option"

record Step =
  AgentName :: string
  ToolCalls :: "ToolCall list"
  StepNumber :: int

record Result =
  Messages :: "MessageParam list"
  Agent :: Agent
  Usage :: Usage
  Steps :: "Step list"
  FinalOutput :: string

subsection \<open>Run configuration (package agents)\<close>

record RunConfig =
  MaxTurns :: int
  cfgTemperature :: "float64 option"
  cfgMaxTokens :: "int option"
  cfgParallelToolCalls :: "bool option"
  Debug :: bool
  Timeout :: int
  cfgResponseFormat :: "ResponseFormat option"

text \<open>\<^verbatim>\<open>time.Minute\<close> in nanoseconds.\<close>

definition time_Minute :: int where
  "time_Minute = 60000000000"

definition DefaultRunConfig :: RunConfig where
  "DefaultRunConfig =
     \<lparr>MaxTurns = 10, cfgTemperature = None, cfgMaxTokens = None, cfgParallelToolCalls = None,
      Debug = False, Timeout = 5 * time_Minute, cfgResponseFormat = None\<rparr>"

section \<open>The environment of a run\<close>

subsection \<open>Requests and completions\<close>

record ToolParam =
  tpName :: string
  tpDescription :: string
  tpParameters :: json_object

datatype ResponseFormatParam =
    OfText
  | OfJSONSchema string string bool "string option"

record ChatCompletionNewParams =
  reqModel :: string
  reqTemperature :: "float64 option"
  reqMaxTokens :: "int option"
  reqTools :: "ToolParam list"
  reqParallelToolCalls :: "bool option"
  reqResponseFormat :: "ResponseFormatParam option"
  reqMessages :: "MessageParam list"

text \<open>
  \<^verbatim>\<open>openai.ChatCompletion\<close>: every choice is kept by its message, and the usage block
  by its three counters.
\<close>

record ChatCompletion =
  Choices :: "ChatCompletionMessage list"
  cuPromptTokens :: int
  cuCompletionTokens :: int
  cuTotalTokens :: int

subsection \<open>Contexts\<close>

text \<open>
  A \<^verbatim>\<open>context.Context\<close> is described by the time of its deadline and the time at which
  its owner cancels it, either of which may be absent. \<^verbatim>\<open>Err()\<close> at time \<open>t\<close> reports
  the first of the two events that has happened by then (the deadline when both fall on
  the same instant).
\<close>

record Context =
  Deadline :: "nat option"
  CancelledAt :: "nat option"

definition Context_Err :: "Context \<Rightarrow> nat \<Rightarrow> error option" where
  "Context_Err c t =
     (case (Deadline c, CancelledAt c) of
        (None, None) \<Rightarrow> None
      | (Some d, None) \<Rightarrow> (if d \<le> t then Some DeadlineExceeded else None)
      | (None, Some k) \<Rightarrow> (if k \<le> t then Some Canceled else None)
      | (Some d, Some k) \<Rightarrow>
          (if d \<le> k then (if d \<le> t then Some DeadlineExceeded else None)
           else (if k \<le> t then Some Canceled else None)))"

text \<open>
  \<^verbatim>\<open>context.WithTimeout(parent, d)\<close> called at time \<open>now\<close>: the derived context
  expires at \<open>now + d\<close> unless the parent is done earlier.
\<close>

definition context_WithTimeout :: "Context \<Rightarrow> nat \<Rightarrow> int \<Rightarrow> Context" where
  "context_WithTimeout parent now d =
     parent\<lparr>Deadline :=
       (case Deadline parent of
          None \<Rightarrow> Some (now + nat d)
        | Some p \<Rightarrow> Some (min p (now + nat d)))\<rparr>"

subsection \<open>Collaborators\<close>

text \<open>
  \<open>Completions_New k req\<close> is the answer of the completion service to the call number
  \<open>k\<close> of the run (counted from \<open>0\<close>) with request \<open>req\<close>; \<open>clock k\<close> is the time at
  which the context is inspected at the top of turn number \<open>k\<close> (from \<open>0\<close>) and
  \<open>start_time\<close> the time at which the timeout is armed; \<open>json_Unmarshal_args\<close> decodes
  the argument text of a tool call into \<^verbatim>\<open>map[string]any\<close>; \<open>Sprint_message\<close> is
  \<^verbatim>\<open>fmt.Sprintf("%v", m)\<close> on a message. Go leaves the order in which a
  \<^verbatim>\<open>range\<close> statement visits the keys of a map to the runtime:
  \<open>range_order tc ks\<close> is the order in which the keys \<open>ks\<close> of the tool map are visited
  while the requested call \<open>tc\<close> is handled (runner.go, lines 354-356), some arrangement of
  \<open>ks\<close>; the requested call, with its identifier, stands for the occasion. The theorems
  hold whatever this order is.
\<close>

record env =
  Completions_New :: "nat \<Rightarrow> ChatCompletionNewParams \<Rightarrow> error + ChatCompletion"
  clock :: "nat \<Rightarrow> nat"
  start_time :: nat
  json_Unmarshal_args :: "string \<Rightarrow> error + json_object"
  Sprint_message :: "MessageParam \<Rightarrow> string"
  range_order :: "ToolCallRequest \<Rightarrow> string list \<Rightarrow> string list"

text \<open>
  The interface \<^verbatim>\<open>Session\<close> of package \<^verbatim>\<open>agents\<close> (runner.go, lines 15-18): an
  implementation is its state and its two methods.
\<close>

record 's Session =
  store :: 's
  Get :: "'s \<Rightarrow> string \<Rightarrow> error + MessageParam list"
  Append :: "'s \<Rightarrow> string \<Rightarrow> MessageParam list \<Rightarrow> error option \<times> 's"

definition MemorySession_impl :: "MemorySession \<Rightarrow> MemorySession Session" where
  "MemorySession_impl m = \<lparr>store = m, Get = MemorySession_Get, Append = MemorySession_Append\<rparr>"

definition FileSession_impl :: "FileSession \<Rightarrow> filesys \<Rightarrow> filesys Session" where
  "FileSession_impl f fs = \<lparr>store = fs, Get = FileSession_Get f, Append = FileSession_Append f\<rparr>"

section \<open>The runner (runner.go and the guardrail and tool functions of package agents)\<close>

subsection \<open>Tools\<close>

definition Tool_ToParam :: "Tool \<Rightarrow> ToolParam" where
  "Tool_ToParam t =
     (let params = (case Parameters t of
                      None \<Rightarrow> [(''type'', ''object''), (''properties'', ''{}'')]
                    | Some ps \<Rightarrow> ps)
      in \<lparr>tpName = tName t, tpDescription = Description t, tpParameters = params\<rparr>)"

definition Tool_Execute ::
  "env \<Rightarrow> Tool \<Rightarrow> string \<Rightarrow> ContextVariables \<Rightarrow> (any \<times> error option) \<times> ContextVariables" where
  "Tool_Execute E t argsJSON ctx =
     (let argsJSON1 = (if argsJSON = [] then ''{}'' else argsJSON)
      in case json_Unmarshal_args E argsJSON1 of
           Inl e \<Rightarrow> ((AnyNil, Some (Wrapf ''failed to unmarshal arguments: '' e)), ctx)
         | Inr args \<Rightarrow>
             (case Callback t of
                None \<Rightarrow>
                  ((AnyNil, Some (ErrorString (''tool '' @ tName t @ '' has no callback function''))),
                   ctx)
              | Some cb \<Rightarrow> cb args ctx))"

definition NewToolExecutionError :: "string \<Rightarrow> error \<Rightarrow> error" where
  "NewToolExecutionError toolName e = ToolExecutionError toolName e"

subsection \<open>Guardrail pipelines\<close>

fun runInputGuardrails :: "Guardrail list \<Rightarrow> string \<Rightarrow> error option" where
  "runInputGuardrails [] input = None"
| "runInputGuardrails (gr # grs) input =
     (case grFunc gr input of
        Inl e \<Rightarrow> Some (Wrapf (''guardrail '' @ [CHR 0x27] @ grName gr @ [CHR 0x27] @ '' failed: '') e)
      | Inr result \<Rightarrow>
          (if TripwireTriggered result
           then Some (InputGuardrailTripwireError (grName gr) (Message result) result)
           else runInputGuardrails grs input))"

fun runOutputGuardrails :: "Guardrail list \<Rightarrow> string \<Rightarrow> error option" where
  "runOutputGuardrails [] output = None"
| "runOutputGuardrails (gr # grs) output =
     (case grFunc gr output of
        Inl e \<Rightarrow> Some (Wrapf (''guardrail '' @ [CHR 0x27] @ grName gr @ [CHR 0x27] @ '' failed: '') e)
      | Inr result \<Rightarrow>
          (if TripwireTriggered result
           then Some (OutputGuardrailTripwireError (grName gr) (Message result) result)
           else runOutputGuardrails grs output))"

subsection \<open>Request assembly\<close>

definition prepareRequest ::
  "Agent \<Rightarrow> RunConfig \<Rightarrow> ToolParam list \<Rightarrow> MessageParam list \<Rightarrow> error + ChatCompletionNewParams" where
  "prepareRequest agent config tools history =
     (let temperature = (case cfgTemperature config of Some t \<Rightarrow> Some t | None \<Rightarrow> Temperature agent);
          maxTokens = (case cfgMaxTokens config of Some n \<Rightarrow> Some n | None \<Rightarrow> MaxTokens agent);
          parallelCalls = (case cfgParallelToolCalls config of
                             Some b \<Rightarrow> b | None \<Rightarrow> ParallelToolCalls agent);
          req = \<lparr>reqModel = Model agent, reqTemperature = temperature, reqMaxTokens = maxTokens,
                 reqTools = (if tools \<noteq> [] then tools else []),
                 reqParallelToolCalls = (if tools \<noteq> [] \<and> \<not> parallelCalls then Some False else None),
                 reqResponseFormat = None,
                 reqMessages = []\<rparr>;
          responseFormat = (case cfgResponseFormat config of
                              Some rf \<Rightarrow> Some rf | None \<Rightarrow> ResponseFormat agent);
          messagesForTurn = [SystemMessage (GetInstructions agent)] @ history
      in case responseFormat of
           None \<Rightarrow> Inr (req\<lparr>reqMessages := messagesForTurn\<rparr>)
         | Some rf \<Rightarrow>
             (if rfType rf = ''text''
              then Inr (req\<lparr>reqResponseFormat := Some OfText, reqMessages := messagesForTurn\<rparr>)
              else if rfType rf = ''json_schema'' \<and> rfJSONSchema rf \<noteq> None
              then (let js = the (rfJSONSchema rf)
                    in case jsSchema_ToMap js of
                         Inl e \<Rightarrow> Inl (Wrapf ''invalid schema: '' e)
                       | Inr schemaMap \<Rightarrow>
                           Inr (req\<lparr>reqResponseFormat :=
                                      Some (OfJSONSchema (jsName js) schemaMap (jsStrict js)
                                        (if jsDescription js \<noteq> [] then Some (jsDescription js)
                                         else None)),
                                    reqMessages := messagesForTurn\<rparr>))
              else Inr (req\<lparr>reqMessages := messagesForTurn\<rparr>)))"

subsection \<open>Tool dispatch and handoff detection\<close>

text \<open>
  A Go map from tool names to tools is an association list with distinct keys; the order
  in which the code ranges over it is taken from the environment.
\<close>

type_synonym toolMap = "(string \<times> Tool) list"

definition truncateID :: "string \<Rightarrow> string" where
  "truncateID i = (if length i > 40 then take 40 i else i)"

text \<open>
  The body of the loop of \<^verbatim>\<open>handleToolCalls\<close> (runner.go, lines 342-389) for one
  requested call. It reads the next agent and the shared context variables and yields the
  message and the record that the iteration appends, the next agent and the context
  variables after it.
\<close>

definition handleToolCall ::
  "env \<Rightarrow> toolMap \<Rightarrow> ToolCallRequest \<Rightarrow> Agent \<Rightarrow> ContextVariables \<Rightarrow>
   (MessageParam \<times> ToolCall \<times> Agent) \<times> ContextVariables" where
  "handleToolCall E toolMap toolCall nextAgent contextParams =
     (let toolName = fnName toolCall;
          args = fnArguments toolCall;
          ((result, err), contextParams1) =
            (case map_of toolMap toolName of
               None \<Rightarrow>
                 (let available = range_order E toolCall (map fst toolMap)
                  in ((AnyString (''Error: Tool '' @ toolName @ '' not found. Available tools: ''
                                   @ Sprint_strings available),
                       Some (ErrorString (''tool '' @ toolName @ '' not found (available: ''
                                   @ Sprint_strings available @ '')''))),
                      contextParams))
             | Some tool \<Rightarrow>
                 (case Tool_Execute E tool args contextParams of
                    ((r, None), c) \<Rightarrow> ((r, None), c)
                  | ((r, Some e), c) \<Rightarrow>
                      ((AnyString (''Error executing tool '' @ toolName @ '': '' @ error_text e),
                        Some (NewToolExecutionError toolName e)), c)));
          recorded = \<lparr>ToolName = toolName, Arguments = args, Result = result, Error = err\<rparr>;
          (nextAgent1, result1) =
            (case IsHandoff result of
               Some extractedAgent \<Rightarrow>
                 (extractedAgent, AnyString (''Transferred to '' @ Name extractedAgent))
             | None \<Rightarrow> (nextAgent, result));
          toolCallID = truncateID (tcID toolCall);
          resultStr = Sprint_any result1
      in ((ToolMessage resultStr toolCallID, recorded, nextAgent1), contextParams1))"

text \<open>
  The loop over the requested calls, with the three variables it updates and the context
  variables; \<^verbatim>\<open>handleToolCalls\<close> starts it with empty lists and the current agent.
\<close>

fun handleToolCalls_loop ::
  "env \<Rightarrow> ToolCallRequest list \<Rightarrow> toolMap \<Rightarrow> MessageParam list \<times> ToolCall list \<times> Agent \<Rightarrow>
   ContextVariables \<Rightarrow> (MessageParam list \<times> ToolCall list \<times> Agent) \<times> ContextVariables" where
  "handleToolCalls_loop E [] toolMap (messages, recordedToolCalls, nextAgent) contextParams =
     ((messages, recordedToolCalls, nextAgent), contextParams)"
| "handleToolCalls_loop E (toolCall # rest) toolMap (messages, recordedToolCalls, nextAgent)
     contextParams =
     (case handleToolCall E toolMap toolCall nextAgent contextParams of
        ((message, recorded, nextAgent1), contextParams1) \<Rightarrow>
          handleToolCalls_loop E rest toolMap
            (messages @ [message], recordedToolCalls @ [recorded], nextAgent1) contextParams1)"

definition handleToolCalls ::
  "env \<Rightarrow> ToolCallRequest list \<Rightarrow> toolMap \<Rightarrow> ContextVariables \<Rightarrow> Agent \<Rightarrow>
   (MessageParam list \<times> ToolCall list \<times> Agent) \<times> ContextVariables" where
  "handleToolCalls E toolCalls toolMap contextParams currentAgent =
     handleToolCalls_loop E toolCalls toolMap ([], [], currentAgent) contextParams"

subsection \<open>The turn loop\<close>

text \<open>The variables of \<^verbatim>\<open>Run\<close> that the loop updates.\<close>

record loop_state =
  history :: "MessageParam list"
  currentAgent :: Agent
  usage :: Usage
  steps :: "Step list"
  turnCount :: int
  contextVariables :: ContextVariables

text \<open>
  One iteration ends either at the end of the body (\<open>Continue\<close>) or at \<^verbatim>\<open>break\<close>
  with the last message (\<open>Break\<close>).
\<close>

datatype turn_outcome = Continue loop_state | Break loop_state ChatCompletionMessage

definition build_toolMap :: "Tool list \<Rightarrow> toolMap" where
  "build_toolMap ts = foldl (\<lambda>m t. AList.update (tName t) t m) [] ts"

definition truncateToolCallIDs :: "ChatCompletionMessage \<Rightarrow> ChatCompletionMessage" where
  "truncateToolCallIDs message =
     message\<lparr>MessageToolCalls :=
       map (\<lambda>tc. ToolCallRequest (truncateID (tcID tc)) (fnName tc) (fnArguments tc))
         (MessageToolCalls message)\<rparr>"

text \<open>
  The body of the loop from \<^verbatim>\<open>turnCount++\<close> on (runner.go, lines 128-199). The call
  to the completion service is the call number \<open>turnCount\<close> of the run, since every
  earlier turn made exactly one. Indexing \<^verbatim>\<open>completion.Choices[0]\<close> panics on an empty
  list.
\<close>

definition turn :: "env \<Rightarrow> RunConfig \<Rightarrow> loop_state \<Rightarrow> error + turn_outcome" where
  "turn E config s =
     (let turnCount1 = turnCount s + 1;
          tools = map Tool_ToParam (Tools (currentAgent s));
          toolMap = build_toolMap (Tools (currentAgent s))
      in case prepareRequest (currentAgent s) config tools (history s) of
           Inl e \<Rightarrow> Inl e
         | Inr req \<Rightarrow>
             (case Completions_New E (nat (turnCount s)) req of
                Inl e \<Rightarrow> Inl (Wrapf ''LLM call failed: '' e)
              | Inr completion \<Rightarrow>
                  (let usage1 =
                         (if cuPromptTokens completion > 0
                          then Usage_Add (usage s)
                                 \<lparr>PromptTokens = cuPromptTokens completion,
                                  CompletionTokens = cuCompletionTokens completion,
                                  TotalTokens = cuTotalTokens completion\<rparr>
                          else usage s)
                   in case Choices completion of
                        [] \<Rightarrow> Inl (RuntimePanic ''index out of range [0] with length 0'')
                      | choice # others \<Rightarrow>
                          (let message = truncateToolCallIDs choice;
                               history1 = history s @ [AssistantMessage message];
                               step = \<lparr>AgentName = Name (currentAgent s), ToolCalls = [],
                                        StepNumber = turnCount1\<rparr>
                           in if MessageToolCalls message = []
                              then Inr (Break (s\<lparr>history := history1, usage := usage1,
                                                  steps := steps s @ [step],
                                                  turnCount := turnCount1\<rparr>) message)
                              else (case handleToolCalls E (MessageToolCalls message) toolMap
                                           (contextVariables s) (currentAgent s) of
                                      ((toolMessages, recordedToolCalls, nextAgent), contextParams1) \<Rightarrow>
                                        Inr (Continue
                                          \<lparr>history = history1 @ toolMessages,
                                           currentAgent = nextAgent,
                                           usage = usage1,
                                           steps = steps s @ [step\<lparr>ToolCalls := recordedToolCalls\<rparr>],
                                           turnCount = turnCount1,
                                           contextVariables = contextParams1\<rparr>))))))"

text \<open>
  The loop (runner.go, lines 114-202). It need not end when \<^verbatim>\<open>MaxTurns\<close> is \<open>0\<close>, so
  it carries fuel: \<open>None\<close> is a loop still running when the fuel is used up, \<open>Some (Inl e)\<close>
  a run aborted with \<open>e\<close>, \<open>Some (Inr (s, m))\<close> the state at \<^verbatim>\<open>break\<close> with the last
  message \<open>m\<close>.
\<close>

fun run_loop ::
  "nat \<Rightarrow> env \<Rightarrow> RunConfig \<Rightarrow> Context \<Rightarrow> loop_state \<Rightarrow>
   (error + loop_state \<times> ChatCompletionMessage) option" where
  "run_loop 0 E config ctx s = None"
| "run_loop (Suc fuel) E config ctx s =
     (if MaxTurns config > 0 \<and> turnCount s \<ge> MaxTurns config then Some (Inl ErrMaxTurnsExceeded)
      else case Context_Err ctx (clock E (nat (turnCount s))) of
             Some err \<Rightarrow> (if err = DeadlineExceeded then Some (Inl ErrTimeout) else Some (Inl err))
           | None \<Rightarrow>
               (case turn E config s of
                  Inl e \<Rightarrow> Some (Inl e)
                | Inr (Break s1 lastMessage) \<Rightarrow> Some (Inr (s1, lastMessage))
                | Inr (Continue s1) \<Rightarrow> run_loop fuel E config ctx s1))"

subsection \<open>Run\<close>

text \<open>
  The loading of the session history (runner.go, lines 90-103). The type assertion
  \<^verbatim>\<open>err.(*NotFoundError)\<close> is on the type that package \<^verbatim>\<open>agents\<close> declares.
\<close>

definition load_session ::
  "'s Session option \<Rightarrow> string \<Rightarrow> MessageParam list \<Rightarrow> error + MessageParam list" where
  "load_session session sessionID messages =
     (case session of
        None \<Rightarrow> Inr messages
      | Some sess \<Rightarrow>
          (if sessionID = [] then Inr messages
           else (case Get sess (store sess) sessionID of
                   Inl err \<Rightarrow>
                     (case err of
                        AgentsNotFoundError x \<Rightarrow> Inr messages
                      | _ \<Rightarrow> Inl (Wrapf ''failed to load session: '' err))
                 | Inr sessionHistory \<Rightarrow> Inr (sessionHistory @ messages))))"

text \<open>
  The part of \<^verbatim>\<open>Run\<close> before the loop (runner.go, lines 53-112): the check of the
  messages, the default configuration, the timeout, the context variables, the before-hook,
  the input guardrails of the agent passed in, and the loading of the session. It yields
  the error that aborts the run or the configuration, the context and the initial state of
  the loop.
\<close>

definition before_loop ::
  "env \<Rightarrow> Context \<Rightarrow> Agent \<Rightarrow> MessageParam list \<Rightarrow> ContextVariables option \<Rightarrow>
   RunConfig option \<Rightarrow> 's Session option \<Rightarrow> string \<Rightarrow>
   error + (RunConfig \<times> Context \<times> loop_state)" where
  "before_loop E ctx agent messages contextParams config session sessionID =
     (if messages = [] then Inl ErrNoMessages
      else
        (let config1 = (case config of None \<Rightarrow> DefaultRunConfig | Some c \<Rightarrow> c);
             ctx1 = (if Timeout config1 > 0
                     then context_WithTimeout ctx (start_time E) (Timeout config1) else ctx);
             contextParams1 = (case contextParams of None \<Rightarrow> Map.empty | Some c \<Rightarrow> c);
             hookErr = (case OnBeforeRun agent of None \<Rightarrow> None | Some hook \<Rightarrow> hook)
         in case hookErr of
              Some err \<Rightarrow> Inl (Wrapf ''OnBeforeRun hook failed: '' err)
            | None \<Rightarrow>
                (case (if InputGuardrails agent \<noteq> [] \<and> messages \<noteq> []
                       then runInputGuardrails (InputGuardrails agent)
                              (Sprint_message E (last messages))
                       else None) of
                   Some err \<Rightarrow> Inl err
                 | None \<Rightarrow>
                     (case load_session session sessionID messages of
                        Inl err \<Rightarrow> Inl err
                      | Inr messages1 \<Rightarrow>
                          Inr (config1, ctx1,
                               \<lparr>history = messages1, currentAgent = agent, usage = zero_Usage,
                                steps = [], turnCount = 0, contextVariables = contextParams1\<rparr>)))))"

text \<open>The saving of the session history (runner.go, lines 229-234).\<close>

definition save_session ::
  "'s Session option \<Rightarrow> string \<Rightarrow> MessageParam list \<Rightarrow> error option \<times> 's Session option" where
  "save_session session sessionID messages =
     (case session of
        None \<Rightarrow> (None, session)
      | Some sess \<Rightarrow>
          (if sessionID = [] then (None, session)
           else (case Append sess (store sess) sessionID messages of
                   (err, st) \<Rightarrow> (err, Some (sess\<lparr>store := st\<rparr>)))))"

text \<open>
  The part of \<^verbatim>\<open>Run\<close> after the loop (runner.go, lines 204-243): the final output, the
  result, the output guardrails, the saving of the session and the after-hook. It returns
  the result, the error and the session.
\<close>

definition finalOutput_of :: "MessageParam list \<Rightarrow> ChatCompletionMessage \<Rightarrow> string" where
  "finalOutput_of messages lastMessage =
     (if messages \<noteq> []
      then (if Content lastMessage \<noteq> [] then Content lastMessage
            else if Refusal lastMessage \<noteq> [] then Refusal lastMessage else [])
      else [])"

definition after_loop ::
  "Agent \<Rightarrow> 's Session option \<Rightarrow> string \<Rightarrow> loop_state \<Rightarrow> ChatCompletionMessage \<Rightarrow>
   Result option \<times> error option \<times> 's Session option" where
  "after_loop agent session sessionID s lastMessage =
     (let finalOutput = finalOutput_of (history s) lastMessage;
          result = \<lparr>Messages = history s, Agent = currentAgent s, Usage = usage s,
                    Steps = steps s, FinalOutput = finalOutput\<rparr>
      in case (if OutputGuardrails agent \<noteq> [] \<and> finalOutput \<noteq> []
               then runOutputGuardrails (OutputGuardrails agent) finalOutput else None) of
           Some err \<Rightarrow> (Some result, Some err, session)
         | None \<Rightarrow>
             (case save_session session sessionID (history s) of
                (Some err, session1) \<Rightarrow>
                  (Some result, Some (Wrapf ''failed to save session: '' err), session1)
              | (None, session1) \<Rightarrow>
                  (case (case OnAfterRun agent of None \<Rightarrow> None | Some hook \<Rightarrow> hook) of
                     Some err \<Rightarrow>
                       (Some result, Some (Wrapf ''OnAfterRun hook failed: '' err), session1)
                   | None \<Rightarrow> (Some result, None, session1))))"

text \<open>
  \<^verbatim>\<open>Runner.Run\<close>. The value \<open>None\<close> is a run whose loop is still going when the fuel is
  used up; \<open>Some (result, err, session)\<close> is what the call returns, with the session store
  as the run leaves it.
\<close>

definition Run ::
  "nat \<Rightarrow> env \<Rightarrow> Context \<Rightarrow> Agent \<Rightarrow> MessageParam list \<Rightarrow> ContextVariables option \<Rightarrow>
   RunConfig option \<Rightarrow> 's Session option \<Rightarrow> string \<Rightarrow>
   (Result option \<times> error option \<times> 's Session option) option" where
  "Run fuel E ctx agent messages contextParams config session sessionID =
     (case before_loop E ctx agent messages contextParams config session sessionID of
        Inl err \<Rightarrow> Some (None, Some err, session)
      | Inr (config1, ctx1, s0) \<Rightarrow>
          (case run_loop fuel E config1 ctx1 s0 of
             None \<Rightarrow> None
           | Some (Inl err) \<Rightarrow> Some (None, Some err, session)
           | Some (Inr (s, lastMessage)) \<Rightarrow> Some (after_loop agent session sessionID s lastMessage)))"

section \<open>Auxiliary functions and concrete inputs\<close>

subsection \<open>Functions used in the statements\<close>

text \<open>
  The codec gives back the list \<open>ms\<close> it encoded; no operation on the files of session
  \<open>sid\<close> is faulty.
\<close>

definition codec_round_trip :: "json_codec \<Rightarrow> MessageParam list \<Rightarrow> bool" where
  "codec_round_trip c ms =
     (case MarshalIndent c ms of Inl e \<Rightarrow> False | Inr data \<Rightarrow> Unmarshal c data = Inr ms)"

definition no_faults :: "FileSession \<Rightarrow> filesys \<Rightarrow> string \<Rightarrow> bool" where
  "no_faults f fs sid =
     (sessionPath f sid \<notin> read_faults fs \<and> sessionPath f sid @ ''.tmp'' \<notin> write_faults fs \<and>
      sessionPath f sid \<notin> rename_faults fs \<and> sessionPath f sid \<notin> remove_faults fs)"

text \<open>
  The agents that the recorded tool calls hold as results, in order: these are the handoffs.
  The text that \<^verbatim>\<open>handleToolCalls\<close> puts in the history for a recorded call: the
  transfer notice for a handoff, the rendering of the result otherwise.
\<close>

definition handoffs_of :: "ToolCall list \<Rightarrow> Agent list" where
  "handoffs_of recs = List.map_filter (\<lambda>r. IsHandoff (Result r)) recs"

definition history_text :: "ToolCall \<Rightarrow> string" where
  "history_text r =
     (case IsHandoff (Result r) of
        Some a \<Rightarrow> ''Transferred to '' @ Name a
      | None \<Rightarrow> Sprint_any (Result r))"

text \<open>
  The contents of the tool messages of a list of messages, in order.
\<close>

definition tool_outputs :: "MessageParam list \<Rightarrow> string list" where
  "tool_outputs ms = List.map_filter (\<lambda>m. case m of ToolMessage c i \<Rightarrow> Some c | _ \<Rightarrow> None) ms"


definition counted_usage :: "ChatCompletion \<Rightarrow> Usage" where
  "counted_usage c =
     (if cuPromptTokens c > 0
      then \<lparr>PromptTokens = cuPromptTokens c, CompletionTokens = cuCompletionTokens c,
            TotalTokens = cuTotalTokens c\<rparr>
      else zero_Usage)"


text \<open>
  The state of the loop after \<open>k\<close> turns that all end at the end of the body, when there
  are that many: the state in which turn number \<open>k\<close> (from \<open>0\<close>) starts.
\<close>

fun state_after :: "nat \<Rightarrow> env \<Rightarrow> RunConfig \<Rightarrow> loop_state \<Rightarrow> loop_state option" where
  "state_after 0 E cfg s = Some s"
| "state_after (Suc k) E cfg s =
     (case turn E cfg s of
        Inr (Continue s1) \<Rightarrow> state_after k E cfg s1
      | _ \<Rightarrow> None)"


subsection \<open>Concrete inputs\<close>

text \<open>
  A codec for lists of user messages, one message per \<open>;\<close>-terminated field, and a store
  directory that is empty or holds one session.
\<close>

fun parse_lines :: "string \<Rightarrow> string \<Rightarrow> MessageParam list" where
  "parse_lines acc [] = []"
| "parse_lines acc (c # cs) =
     (if c = CHR '';'' then UserMessage (rev acc) # parse_lines [] cs else parse_lines (c # acc) cs)"

definition line_codec :: json_codec where
  "line_codec =
     \<lparr>MarshalIndent = (\<lambda>ms. Inr (concat (map (\<lambda>m. case m of UserMessage s \<Rightarrow> s @ '';'' | _ \<Rightarrow> ''?;'') ms))),
      Unmarshal = (\<lambda>data. Inr (parse_lines [] data))\<rparr>"

definition demo_FileSession :: FileSession where
  "demo_FileSession = \<lparr>basePath = ''/tmp/agent-sessions'', codec = line_codec\<rparr>"

definition empty_filesys :: filesys where
  "empty_filesys = \<lparr>files = Map.empty, read_faults = {}, write_faults = {}, rename_faults = {}, remove_faults = {}\<rparr>"

definition demo_filesys :: filesys where
  "demo_filesys = empty_filesys\<lparr>files := [''/tmp/agent-sessions/user_456.json'' \<mapsto> ''I live in San Francisco;'']\<rparr>"

definition demo_M1 :: "MessageParam list" where
  "demo_M1 = [UserMessage ''I live in San Francisco'']"

definition demo_M2 :: "MessageParam list" where
  "demo_M2 = [UserMessage ''What city did I mention?'']"


definition block_all :: Guardrail where
  "block_all = \<lparr>grName = ''block_all'',
     grFunc = (\<lambda>payload. Inr \<lparr>Passed = False, TripwireTriggered = True, Message = ''blocked'', Metadata = []\<rparr>),
     RunInParallel = False\<rparr>"


definition billing_agent :: Agent where
  "billing_agent =
     MkAgent ''Billing'' DefaultModel (InstructionsString ''You handle billing.'') [] True
       None None None None None [] [block_all]"

definition transfer_to_billing :: Tool where
  "transfer_to_billing =
     MkTool ''transfer_to_billing'' ''Hand the conversation to billing'' None
       (Some (\<lambda>args vars. ((AnyAgent billing_agent, None), vars)))"

definition lookup_order :: Tool where
  "lookup_order =
     MkTool ''lookup_order'' ''Look an order up'' None
       (Some (\<lambda>args vars. ((AnyNil, Some (ErrorString ''connection failed'')), vars)))"

definition triage_agent :: Agent where
  "triage_agent =
     MkAgent ''Triage'' DefaultModel (InstructionsString ''You route requests.'')
       [transfer_to_billing, lookup_order] True None None None None None [] []"




text \<open>
  Completion services that answer by a script, contexts and configurations.
\<close>

definition reply :: "string \<Rightarrow> ToolCallRequest list \<Rightarrow> int \<times> int \<times> int \<Rightarrow> ChatCompletion" where
  "reply text calls u =
     (case u of (p, c, t) \<Rightarrow>
       \<lparr>Choices = [\<lparr>Content = text, Refusal = [], MessageToolCalls = calls\<rparr>],
        cuPromptTokens = p, cuCompletionTokens = c, cuTotalTokens = t\<rparr>)"

definition scripted_env :: "(nat \<Rightarrow> error + ChatCompletion) \<Rightarrow> env" where
  "scripted_env script =
     \<lparr>Completions_New = (\<lambda>k req. script k), clock = (\<lambda>k. k), start_time = 0,
      json_Unmarshal_args = (\<lambda>s. Inr []),
      Sprint_message = (\<lambda>m. case m of UserMessage s \<Rightarrow> s | SystemMessage s \<Rightarrow> s
                              | AssistantMessage a \<Rightarrow> Content a | ToolMessage c i \<Rightarrow> c),
      range_order = (\<lambda>tc ks. rev ks)\<rparr>"

definition handoff_script :: "nat \<Rightarrow> error + ChatCompletion" where
  "handoff_script k =
     (if k = 0 then Inr (reply [] [ToolCallRequest ''call_1'' ''transfer_to_billing'' ''{}''] (10, 5, 15))
      else Inr (reply ''Your refund is on its way.'' [] (20, 8, 28)))"

definition failing_calls :: "ToolCallRequest list" where
  "failing_calls = [ToolCallRequest ''call_1'' ''lookup_order'' ''{}'',
                    ToolCallRequest ''call_2'' ''refund_order'' ''{}'']"

definition failing_script :: "nat \<Rightarrow> error + ChatCompletion" where
  "failing_script k =
     (if k = 0
      then Inr (reply [] [ToolCallRequest ''call_1'' ''lookup_order'' ''{}'',
                          ToolCallRequest ''call_2'' ''refund_order'' ''{}''] (12, 7, 19))
      else Inr (reply ''I could not look the order up.'' [] (0, 5, 5)))"

definition answer_script :: "nat \<Rightarrow> error + ChatCompletion" where
  "answer_script k = Inr (reply ''Your refund is on its way.'' [] (20, 8, 28))"




definition late_env :: env where
  "late_env = (scripted_env handoff_script)\<lparr>clock := (\<lambda>k. 10 * k)\<rparr>"

definition slow_env :: env where
  "slow_env = (scripted_env answer_script)\<lparr>clock := (\<lambda>k. 10 * (k + 1))\<rparr>"

definition background :: Context where
  "background = \<lparr>Deadline = None, CancelledAt = None\<rparr>"

definition caller_deadline :: Context where
  "caller_deadline = \<lparr>Deadline = Some 0, CancelledAt = None\<rparr>"

definition caller_cancelled :: Context where
  "caller_cancelled = \<lparr>Deadline = None, CancelledAt = Some 0\<rparr>"

definition no_limits :: RunConfig where
  "no_limits = DefaultRunConfig\<lparr>MaxTurns := 0, Timeout := 0\<rparr>"

definition short_timeout :: RunConfig where
  "short_timeout = DefaultRunConfig\<lparr>MaxTurns := 0, Timeout := 5\<rparr>"

definition two_turns :: RunConfig where
  "two_turns = DefaultRunConfig\<lparr>MaxTurns := 2, Timeout := 0\<rparr>"

text \<open>
  The states and results of the scripted runs.
\<close>

definition triage_start :: "MessageParam list \<Rightarrow> loop_state" where
  "triage_start ms =
     \<lparr>history = ms, currentAgent = triage_agent, usage = zero_Usage, steps = [], turnCount = 0,
      contextVariables = Map.empty\<rparr>"

definition handoff_choice :: ChatCompletionMessage where
  "handoff_choice = \<lparr>Content = [], Refusal = [],
     MessageToolCalls = [ToolCallRequest ''call_1'' ''transfer_to_billing'' ''{}'']\<rparr>"

definition final_choice :: ChatCompletionMessage where
  "final_choice = \<lparr>Content = ''Your refund is on its way.'', Refusal = [], MessageToolCalls = []\<rparr>"

definition failing_choice :: ChatCompletionMessage where
  "failing_choice = \<lparr>Content = [], Refusal = [], MessageToolCalls = failing_calls\<rparr>"

definition handoff_result :: Result where
  "handoff_result =
     \<lparr>Messages =
        [UserMessage ''I want a refund'',
         AssistantMessage \<lparr>Content = [], Refusal = [],
            MessageToolCalls = [ToolCallRequest ''call_1'' ''transfer_to_billing'' ''{}'']\<rparr>,
         ToolMessage ''Transferred to Billing'' ''call_1'',
         AssistantMessage \<lparr>Content = ''Your refund is on its way.'', Refusal = [],
            MessageToolCalls = []\<rparr>],
      Agent = billing_agent,
      Usage = \<lparr>PromptTokens = 30, CompletionTokens = 13, TotalTokens = 43\<rparr>,
      Steps =
        [\<lparr>AgentName = ''Triage'',
          ToolCalls = [\<lparr>ToolName = ''transfer_to_billing'', Arguments = ''{}'',
                        Result = AnyAgent billing_agent, Error = None\<rparr>],
          StepNumber = 1\<rparr>,
         \<lparr>AgentName = ''Billing'', ToolCalls = [], StepNumber = 2\<rparr>],
      FinalOutput = ''Your refund is on its way.''\<rparr>"

definition handoff_mid :: loop_state where
  "handoff_mid =
     \<lparr>history = [UserMessage ''I want a refund'',
         AssistantMessage \<lparr>Content = [], Refusal = [],
            MessageToolCalls = [ToolCallRequest ''call_1'' ''transfer_to_billing'' ''{}'']\<rparr>,
         ToolMessage ''Transferred to Billing'' ''call_1''],
      currentAgent = billing_agent,
      usage = \<lparr>PromptTokens = 10, CompletionTokens = 5, TotalTokens = 15\<rparr>,
      steps = [\<lparr>AgentName = ''Triage'',
          ToolCalls = [\<lparr>ToolName = ''transfer_to_billing'', Arguments = ''{}'',
                        Result = AnyAgent billing_agent, Error = None\<rparr>],
          StepNumber = 1\<rparr>],
      turnCount = 1, contextVariables = Map.empty\<rparr>"

definition handoff_end :: loop_state where
  "handoff_end =
     \<lparr>history = Messages handoff_result, currentAgent = billing_agent,
      usage = Usage handoff_result, steps = Steps handoff_result, turnCount = 2,
      contextVariables = Map.empty\<rparr>"

definition failing_mid :: loop_state where
  "failing_mid =
     \<lparr>history = [UserMessage ''Where is my order?'', AssistantMessage failing_choice,
         ToolMessage ''Error executing tool lookup_order: connection failed'' ''call_1'',
         ToolMessage ''Error: Tool refund_order not found. Available tools: [lookup_order transfer_to_billing]'' ''call_2''],
      currentAgent = triage_agent,
      usage = \<lparr>PromptTokens = 12, CompletionTokens = 7, TotalTokens = 19\<rparr>,
      steps = [\<lparr>AgentName = ''Triage'',
          ToolCalls = [\<lparr>ToolName = ''lookup_order'', Arguments = ''{}'',
                        Result = AnyString ''Error executing tool lookup_order: connection failed'',
                        Error = Some (ToolExecutionError ''lookup_order'' (ErrorString ''connection failed''))\<rparr>,
                       \<lparr>ToolName = ''refund_order'', Arguments = ''{}'',
                        Result = AnyString ''Error: Tool refund_order not found. Available tools: [lookup_order transfer_to_billing]'',
                        Error = Some (ErrorString ''tool refund_order not found (available: [lookup_order transfer_to_billing])'')\<rparr>],
          StepNumber = 1\<rparr>],
      turnCount = 1, contextVariables = Map.empty\<rparr>"

definition failing_result :: Result where
  "failing_result =
     \<lparr>Messages = history failing_mid @
        [AssistantMessage \<lparr>Content = ''I could not look the order up.'', Refusal = [],
           MessageToolCalls = []\<rparr>],
      Agent = triage_agent,
      Usage = \<lparr>PromptTokens = 12, CompletionTokens = 7, TotalTokens = 19\<rparr>,
      Steps = steps failing_mid @ [\<lparr>AgentName = ''Triage'', ToolCalls = [], StepNumber = 2\<rparr>],
      FinalOutput = ''I could not look the order up.''\<rparr>"


section \<open>Properties\<close>

subsection \<open>Session stores\<close>

lemma mem_append_get:
  "MemorySession_Get (snd (MemorySession_Append m sid ms)) sid =
     Inr ((case m sid of None \<Rightarrow> [] | Some old \<Rightarrow> old) @ ms)"
  by (simp add: MemorySession_Get_def MemorySession_Append_def Let_def split: option.splits)

lemma mem_append_lookup:
  "snd (MemorySession_Append m sid ms) sid = Some ((case m sid of None \<Rightarrow> [] | Some old \<Rightarrow> old) @ ms)"
  by (simp add: MemorySession_Append_def Let_def split: option.splits)

lemma mem_round_trip:
  "m sid = None \<Longrightarrow>
   MemorySession_Get (snd (MemorySession_Append (snd (MemorySession_Append m sid M1)) sid M2)) sid
     = Inr (M1 @ M2)"
  by (simp add: mem_append_get mem_append_lookup)

lemma tmp_neq: "p @ ''.tmp'' \<noteq> p"
  by (metis append_self_conv list.distinct(1))

lemma writeAtomic_ok:
  assumes "MarshalIndent (codec f) ms = Inr data" "no_faults f fs sid"
  shows "writeAtomic f fs sid ms =
          (None, fs\<lparr>files := ((files fs)(sessionPath f sid @ ''.tmp'' := None))(sessionPath f sid \<mapsto> data)\<rparr>)"
  using assms tmp_neq[of "sessionPath f sid"]
  by (auto simp add: writeAtomic_def no_faults_def os_WriteFile_def os_Rename_def Let_def)

lemma no_faults_files [simp]: "no_faults f (fs\<lparr>files := g\<rparr>) sid = no_faults f fs sid"
  by (simp add: no_faults_def)

lemma file_get_after_write:
  assumes "codec_round_trip (codec f) ms" "no_faults f fs sid"
  shows "fst (writeAtomic f fs sid ms) = None \<and> no_faults f (snd (writeAtomic f fs sid ms)) sid \<and>
         FileSession_Get f (snd (writeAtomic f fs sid ms)) sid = Inr ms
       \<and> os_ReadFile (snd (writeAtomic f fs sid ms)) (sessionPath f sid) = Inr (projr (MarshalIndent (codec f) ms))"
proof -
  from assms(1) obtain data where d: "MarshalIndent (codec f) ms = Inr data" "Unmarshal (codec f) data = Inr ms"
    by (auto simp add: codec_round_trip_def split: sum.splits)
  show ?thesis using d assms(2) 
    by (simp add: writeAtomic_ok[OF d(1) assms(2)] FileSession_Get_def os_ReadFile_def no_faults_def)
qed

lemma file_append_fresh:
  assumes "files fs (sessionPath f sid) = None" "no_faults f fs sid"
  shows "FileSession_Append f fs sid ms = writeAtomic f fs sid ms"
  using assms by (simp add: FileSession_Append_def os_ReadFile_def no_faults_def os_IsNotExist_def)

lemma file_append_existing:
  assumes "os_ReadFile fs (sessionPath f sid) = Inr data" "Unmarshal (codec f) data = Inr old"
  shows "FileSession_Append f fs sid ms = writeAtomic f fs sid (old @ ms)"
  using assms by (simp add: FileSession_Append_def)

lemma demo_path: "sessionPath demo_FileSession ''user_456'' = ''/tmp/agent-sessions/user_456.json''"
  by (simp add: sessionPath_def demo_FileSession_def filepath_Join_def)

text \<open>
  Claim C7. For both stores: appending \<open>M1\<close> and then \<open>M2\<close> to a session that does not
  exist yet and getting it yields \<open>M1 @ M2\<close>; clearing an existing session and getting it
  yields the empty list; deleting an existing session and getting it yields the store's
  not-found error. For the durable store this holds when the file operations on the
  session's paths succeed and the codec gives back the lists it encodes.
\<close>

theorem session_round_trip:
  assumes "no_faults f fsF sid" "no_faults f fsE sid"
    and "codec_round_trip (codec f) M1" "codec_round_trip (codec f) (M1 @ M2)"
        "codec_round_trip (codec f) []"
    and "mF sid = None" "mE sid \<noteq> None"
    and "files fsF (sessionPath f sid) = None" "files fsE (sessionPath f sid) \<noteq> None"
  shows "(fst (MemorySession_Append mF sid M1) = None \<and>
          fst (MemorySession_Append (snd (MemorySession_Append mF sid M1)) sid M2) = None \<and>
          MemorySession_Get
            (snd (MemorySession_Append (snd (MemorySession_Append mF sid M1)) sid M2)) sid
            = Inr (M1 @ M2)) \<and>
         (fst (MemorySession_Clear mE sid) = None \<and>
          MemorySession_Get (snd (MemorySession_Clear mE sid)) sid = Inr []) \<and>
         (fst (MemorySession_Delete mE sid) = None \<and>
          MemorySession_Get (snd (MemorySession_Delete mE sid)) sid = Inl (SessionNotFoundError sid)) \<and>
         (fst (FileSession_Append f fsF sid M1) = None \<and>
          fst (FileSession_Append f (snd (FileSession_Append f fsF sid M1)) sid M2) = None \<and>
          FileSession_Get f
            (snd (FileSession_Append f (snd (FileSession_Append f fsF sid M1)) sid M2)) sid
            = Inr (M1 @ M2)) \<and>
         (fst (FileSession_Clear f fsE sid) = None \<and>
          FileSession_Get f (snd (FileSession_Clear f fsE sid)) sid = Inr []) \<and>
         (fst (FileSession_Delete f fsE sid) = None \<and>
          FileSession_Get f (snd (FileSession_Delete f fsE sid)) sid = Inl (SessionNotFoundError sid))"
proof -
  have mem1: "fst (MemorySession_Append mF sid M1) = None \<and>
          fst (MemorySession_Append (snd (MemorySession_Append mF sid M1)) sid M2) = None \<and>
          MemorySession_Get
            (snd (MemorySession_Append (snd (MemorySession_Append mF sid M1)) sid M2)) sid
            = Inr (M1 @ M2)"
    using mem_round_trip[of mF sid M1 M2] assms(6) by (simp add: MemorySession_Append_def Let_def)
  have mem2: "fst (MemorySession_Clear mE sid) = None \<and>
          MemorySession_Get (snd (MemorySession_Clear mE sid)) sid = Inr []"
    using assms(7) by (simp add: MemorySession_Clear_def MemorySession_Get_def)
  have mem3: "fst (MemorySession_Delete mE sid) = None \<and>
          MemorySession_Get (snd (MemorySession_Delete mE sid)) sid = Inl (SessionNotFoundError sid)"
    using assms(7) by (simp add: MemorySession_Delete_def MemorySession_Get_def)
  let ?fs1 = "snd (FileSession_Append f fsF sid M1)"
  have a1: "FileSession_Append f fsF sid M1 = writeAtomic f fsF sid M1"
    by (rule file_append_fresh[OF assms(8) assms(1)])
  note w1 = file_get_after_write[OF assms(3) assms(1)]
  from assms(3) obtain d1 where d1: "MarshalIndent (codec f) M1 = Inr d1" "Unmarshal (codec f) d1 = Inr M1"
    by (auto simp add: codec_round_trip_def split: sum.splits)
  have r1: "os_ReadFile ?fs1 (sessionPath f sid) = Inr d1"
    using w1 d1 a1 by simp
  have nf1: "no_faults f ?fs1 sid" using w1 a1 by simp
  have a2: "FileSession_Append f ?fs1 sid M2 = writeAtomic f ?fs1 sid (M1 @ M2)"
    by (rule file_append_existing[OF r1 d1(2)])
  note w2 = file_get_after_write[OF assms(4) nf1]
  have file1: "fst (FileSession_Append f fsF sid M1) = None \<and>
          fst (FileSession_Append f ?fs1 sid M2) = None \<and>
          FileSession_Get f (snd (FileSession_Append f ?fs1 sid M2)) sid = Inr (M1 @ M2)"
    using w1 w2 a1 a2 by simp
  have c: "FileSession_Clear f fsE sid = writeAtomic f fsE sid []"
    using assms(9) by (auto simp add: FileSession_Clear_def os_Stat_def)
  have file2: "fst (FileSession_Clear f fsE sid) = None \<and>
          FileSession_Get f (snd (FileSession_Clear f fsE sid)) sid = Inr []"
    using file_get_after_write[OF assms(5) assms(2)] c by simp
  have file3: "fst (FileSession_Delete f fsE sid) = None \<and>
          FileSession_Get f (snd (FileSession_Delete f fsE sid)) sid = Inl (SessionNotFoundError sid)"
    using assms(9) assms(2)
    by (auto simp add: FileSession_Delete_def os_Stat_def os_Remove_def no_faults_def
        FileSession_Get_def os_ReadFile_def os_IsNotExist_def)
  show ?thesis using mem1 mem2 mem3 file1 file2 file3 by blast
qed

text \<open>
  Both stores on one session of two user messages.
\<close>

theorem session_round_trip_witness:
  "no_faults demo_FileSession empty_filesys ''user_456'' \<and>
   no_faults demo_FileSession demo_filesys ''user_456'' \<and>
   codec_round_trip line_codec demo_M1 \<and> codec_round_trip line_codec (demo_M1 @ demo_M2) \<and>
   codec_round_trip line_codec [] \<and>
   files empty_filesys (sessionPath demo_FileSession ''user_456'') = None \<and>
   files demo_filesys (sessionPath demo_FileSession ''user_456'') \<noteq> None \<and>
   MemorySession_Get
     (snd (MemorySession_Append (snd (MemorySession_Append NewMemorySession ''user_456'' demo_M1))
        ''user_456'' demo_M2)) ''user_456'' = Inr (demo_M1 @ demo_M2) \<and>
   MemorySession_Get (snd (MemorySession_Clear [''user_456'' \<mapsto> demo_M1] ''user_456'')) ''user_456''
     = Inr [] \<and>
   MemorySession_Get (snd (MemorySession_Delete [''user_456'' \<mapsto> demo_M1] ''user_456'')) ''user_456''
     = Inl (SessionNotFoundError ''user_456'') \<and>
   FileSession_Get demo_FileSession
     (snd (FileSession_Append demo_FileSession
        (snd (FileSession_Append demo_FileSession empty_filesys ''user_456'' demo_M1))
        ''user_456'' demo_M2)) ''user_456'' = Inr (demo_M1 @ demo_M2) \<and>
   FileSession_Get demo_FileSession (snd (FileSession_Clear demo_FileSession demo_filesys ''user_456''))
     ''user_456'' = Inr [] \<and>
   FileSession_Get demo_FileSession (snd (FileSession_Delete demo_FileSession demo_filesys ''user_456''))
     ''user_456'' = Inl (SessionNotFoundError ''user_456'')"
proof -
  have h1: "no_faults demo_FileSession empty_filesys ''user_456''"
    and h2: "no_faults demo_FileSession demo_filesys ''user_456''"
    by (simp_all add: no_faults_def empty_filesys_def demo_filesys_def)
  have h3: "codec_round_trip (codec demo_FileSession) demo_M1"
    and h4: "codec_round_trip (codec demo_FileSession) (demo_M1 @ demo_M2)"
    and h5: "codec_round_trip (codec demo_FileSession) []"
    by (simp_all add: codec_round_trip_def demo_FileSession_def line_codec_def demo_M1_def demo_M2_def)
  have h6: "NewMemorySession ''user_456'' = None"
    and h7: "[''user_456'' \<mapsto> demo_M1] ''user_456'' \<noteq> None"
    by (simp_all add: NewMemorySession_def)
  have h8: "files empty_filesys (sessionPath demo_FileSession ''user_456'') = None"
    and h9: "files demo_filesys (sessionPath demo_FileSession ''user_456'') \<noteq> None"
    by (simp_all add: demo_path empty_filesys_def demo_filesys_def)
  show ?thesis
    using session_round_trip[where f = demo_FileSession and fsF = empty_filesys
        and fsE = demo_filesys and sid = "''user_456''" and ?M1.0 = demo_M1 and ?M2.0 = demo_M2
        and mF = NewMemorySession and mE = "[''user_456'' \<mapsto> demo_M1]"]
      h1 h2 h3 h4 h5 h6 h7 h8 h9
    by (simp add: demo_FileSession_def)
qed

subsection \<open>Tool dispatch\<close>

lemma handleToolCall_not_found:
  assumes "map_of tm (fnName tc) = None"
  shows "handleToolCall E tm tc n cv =
    ((ToolMessage (''Error: Tool '' @ fnName tc @ '' not found. Available tools: ''
                     @ Sprint_strings (range_order E tc (map fst tm))) (truncateID (tcID tc)),
      \<lparr>ToolName = fnName tc, Arguments = fnArguments tc,
       Result = AnyString (''Error: Tool '' @ fnName tc @ '' not found. Available tools: ''
                     @ Sprint_strings (range_order E tc (map fst tm))),
       Error = Some (ErrorString (''tool '' @ fnName tc @ '' not found (available: ''
                     @ Sprint_strings (range_order E tc (map fst tm)) @ '')''))\<rparr>, n), cv)"
  using assms by (simp add: handleToolCall_def Let_def)

lemma handleToolCall_error:
  assumes "map_of tm (fnName tc) = Some tool"
    and "Tool_Execute E tool (fnArguments tc) cv = ((r, Some e), cv')"
  shows "handleToolCall E tm tc n cv =
    ((ToolMessage (''Error executing tool '' @ fnName tc @ '': '' @ error_text e)
        (truncateID (tcID tc)),
      \<lparr>ToolName = fnName tc, Arguments = fnArguments tc,
       Result = AnyString (''Error executing tool '' @ fnName tc @ '': '' @ error_text e),
       Error = Some (ToolExecutionError (fnName tc) e)\<rparr>, n), cv')"
  using assms by (simp add: handleToolCall_def Let_def NewToolExecutionError_def)

lemma handleToolCall_ok:
  assumes "map_of tm (fnName tc) = Some tool"
    and "Tool_Execute E tool (fnArguments tc) cv = ((r, None), cv')"
  shows "handleToolCall E tm tc n cv =
    ((ToolMessage (case IsHandoff r of Some a \<Rightarrow> ''Transferred to '' @ Name a
                                      | None \<Rightarrow> Sprint_any r) (truncateID (tcID tc)),
      \<lparr>ToolName = fnName tc, Arguments = fnArguments tc, Result = r, Error = None\<rparr>,
      (case IsHandoff r of Some a \<Rightarrow> a | None \<Rightarrow> n)), cv')"
  using assms by (simp add: handleToolCall_def Let_def split: option.splits)

lemma handleToolCall_shape:
  assumes "handleToolCall E tm tc n cv = ((m, r, n'), cv')"
  shows "ToolName r = fnName tc \<and> Arguments r = fnArguments tc \<and>
         m = ToolMessage (history_text r) (truncateID (tcID tc)) \<and>
         n' = last (n # handoffs_of [r])"
proof (cases "map_of tm (fnName tc)")
  case None
  from handleToolCall_not_found[OF None, of E n cv] assms show ?thesis
    by (auto simp add: history_text_def handoffs_of_def)
next
  case (Some tool)
  obtain r0 eo c0 where ex: "Tool_Execute E tool (fnArguments tc) cv = ((r0, eo), c0)"
    by (metis prod.exhaust)
  show ?thesis
  proof (cases eo)
    case None
    from handleToolCall_ok[OF Some ex[unfolded None], of n] assms show ?thesis
      by (auto simp add: history_text_def handoffs_of_def split: option.splits)
  next
    case (Some e)
    from handleToolCall_error[OF \<open>map_of tm (fnName tc) = Some tool\<close> ex[unfolded Some], of n] assms
    show ?thesis
      by (auto simp add: history_text_def handoffs_of_def)
  qed
qed

lemma handoffs_of_append: "handoffs_of (xs @ ys) = handoffs_of xs @ handoffs_of ys"
  by (simp add: handoffs_of_def List.map_filter_def)

lemma last_handoffs_step:
  "last (last (n # handoffs_of xs) # handoffs_of ys) = last (n # handoffs_of (xs @ ys))"
  by (simp add: handoffs_of_append)

lemma loop_shape:
  "handleToolCalls_loop E tcs tm (ms, rs, n) cv = ((ms', rs', n'), cv') \<Longrightarrow>
   \<exists>rs2. rs' = rs @ rs2 \<and> length rs2 = length tcs \<and>
         ms' = ms @ map2 (\<lambda>r tc. ToolMessage (history_text r) (truncateID (tcID tc))) rs2 tcs \<and>
         map ToolName rs2 = map fnName tcs \<and> map Arguments rs2 = map fnArguments tcs \<and>
         n' = last (n # handoffs_of rs2)"
proof (induction tcs arbitrary: ms rs n cv)
  case Nil
  then show ?case by (simp add: handoffs_of_def)
next
  case (Cons tc tcs)
  obtain m r n1 cv1 where h: "handleToolCall E tm tc n cv = ((m, r, n1), cv1)"
    by (metis prod.exhaust)
  from Cons.prems h have
    "handleToolCalls_loop E tcs tm (ms @ [m], rs @ [r], n1) cv1 = ((ms', rs', n'), cv')"
    by simp
  from Cons.IH[OF this] obtain rs2 where
    a: "rs' = (rs @ [r]) @ rs2" "length rs2 = length tcs"
       "ms' = (ms @ [m]) @ map2 (\<lambda>r tc. ToolMessage (history_text r) (truncateID (tcID tc))) rs2 tcs"
       "map ToolName rs2 = map fnName tcs" "map Arguments rs2 = map fnArguments tcs"
       "n' = last (n1 # handoffs_of rs2)"
    by blast
  note s = handleToolCall_shape[OF h]
  have "n' = last (n # handoffs_of (r # rs2))"
    using a(6) s last_handoffs_step[of n "[r]" rs2] by simp
  with a s show ?case
    by (intro exI[of _ "r # rs2"]) simp
qed

lemma handleToolCalls_shape:
  assumes "handleToolCalls E tcs tm cv a = ((msgs, recs, n), cv')"
  shows "length recs = length tcs \<and>
         msgs = map2 (\<lambda>r tc. ToolMessage (history_text r) (truncateID (tcID tc))) recs tcs \<and>
         map ToolName recs = map fnName tcs \<and> map Arguments recs = map fnArguments tcs \<and>
         n = last (a # handoffs_of recs)"
  using loop_shape[OF assms[unfolded handleToolCalls_def]] by auto

lemma Tool_Execute_callback:
  assumes "json_Unmarshal_args E (if a = [] then ''{}'' else a) = Inr args"
    and "Callback t = Some cb"
  shows "Tool_Execute E t a cv = cb args cv"
  using assms by (simp add: Tool_Execute_def Let_def)

lemma Tool_Execute_no_error:
  assumes "Tool_Execute E t a cv = ((r, None), cv')"
  shows "\<exists>cb args. json_Unmarshal_args E (if a = [] then ''{}'' else a) = Inr args \<and>
           Callback t = Some cb \<and> cb args cv = ((r, None), cv')"
  using assms by (auto simp add: Tool_Execute_def Let_def split: sum.splits option.splits)

lemma build_toolMap_mem_aux:
  "map_of (foldl (\<lambda>m t. AList.update (tName t) t m) acc ts) n = Some t \<Longrightarrow>
   t \<in> set ts \<or> map_of acc n = Some t"
proof (induction ts arbitrary: acc)
  case Nil
  then show ?case by simp
next
  case (Cons x xs)
  from Cons.IH[OF Cons.prems[simplified]] show ?case
    by (auto simp add: update_conv' split: if_splits)
qed

lemma build_toolMap_mem: "map_of (build_toolMap ts) n = Some t \<Longrightarrow> t \<in> set ts"
  using build_toolMap_mem_aux[of "[]" ts n t] by (simp add: build_toolMap_def)

subsection \<open>One turn and the loop\<close>

lemma Usage_Add_zero [simp]: "Usage_Add u zero_Usage = u"
  by (simp add: Usage_Add_def zero_Usage_def)

lemma turn_Continue:
  assumes "turn E cfg s = Inr (Continue s')"
  shows "\<exists>req c choice others msgs recs.
    prepareRequest (currentAgent s) cfg (map Tool_ToParam (Tools (currentAgent s))) (history s) = Inr req \<and>
    Completions_New E (nat (turnCount s)) req = Inr c \<and> Choices c = choice # others \<and>
    MessageToolCalls choice \<noteq> [] \<and>
    handleToolCalls E (MessageToolCalls (truncateToolCallIDs choice))
      (build_toolMap (Tools (currentAgent s))) (contextVariables s) (currentAgent s)
      = ((msgs, recs, currentAgent s'), contextVariables s') \<and>
    history s' = history s @ [AssistantMessage (truncateToolCallIDs choice)] @ msgs \<and>
    steps s' = steps s @ [\<lparr>AgentName = Name (currentAgent s), ToolCalls = recs,
                           StepNumber = turnCount s + 1\<rparr>] \<and>
    turnCount s' = turnCount s + 1 \<and>
    usage s' = Usage_Add (usage s) (counted_usage c)"
  using assms
  by (auto simp add: turn_def Let_def counted_usage_def truncateToolCallIDs_def
      split: sum.splits list.splits if_splits prod.splits)

lemma turn_Break:
  assumes "turn E cfg s = Inr (Break s' m)"
  shows "\<exists>req c choice others.
    prepareRequest (currentAgent s) cfg (map Tool_ToParam (Tools (currentAgent s))) (history s) = Inr req \<and>
    Completions_New E (nat (turnCount s)) req = Inr c \<and> Choices c = choice # others \<and>
    MessageToolCalls choice = [] \<and> m = truncateToolCallIDs choice \<and>
    currentAgent s' = currentAgent s \<and> contextVariables s' = contextVariables s \<and>
    history s' = history s @ [AssistantMessage m] \<and>
    steps s' = steps s @ [\<lparr>AgentName = Name (currentAgent s), ToolCalls = [],
                           StepNumber = turnCount s + 1\<rparr>] \<and>
    turnCount s' = turnCount s + 1 \<and>
    usage s' = Usage_Add (usage s) (counted_usage c)"
  using assms
  by (auto simp add: turn_def Let_def counted_usage_def truncateToolCallIDs_def
      split: sum.splits list.splits if_splits prod.splits)

lemma turn_with_tool_calls:
  assumes "prepareRequest (currentAgent s) cfg (map Tool_ToParam (Tools (currentAgent s))) (history s) = Inr req"
    and "Completions_New E (nat (turnCount s)) req = Inr c" "Choices c = choice # others"
    and "MessageToolCalls choice \<noteq> []"
  shows "\<exists>s'. turn E cfg s = Inr (Continue s')"
  using assms
  by (auto simp add: turn_def Let_def truncateToolCallIDs_def split: prod.splits)

lemma tool_outputs_append: "tool_outputs (xs @ ys) = tool_outputs xs @ tool_outputs ys"
  by (simp add: tool_outputs_def List.map_filter_def)

lemma tool_outputs_assistant [simp]: "tool_outputs (AssistantMessage m # ms) = tool_outputs ms"
  by (simp add: tool_outputs_def List.map_filter_def)

lemma tool_outputs_Nil [simp]: "tool_outputs [] = []"
  by (simp add: tool_outputs_def List.map_filter_def)

lemma tool_outputs_map2:
  "length rs = length tcs \<Longrightarrow>
   tool_outputs (map2 (\<lambda>r tc. ToolMessage (f r) (g tc)) rs tcs) = map f rs"
  by (induction rs tcs rule: list_induct2) (simp_all add: tool_outputs_def List.map_filter_def)

lemma run_loop_Suc_Inr:
  assumes "run_loop (Suc fuel) E cfg ctx s = Some (Inr (s', m))"
  shows "turn E cfg s = Inr (Break s' m) \<or>
         (\<exists>s1. turn E cfg s = Inr (Continue s1) \<and> run_loop fuel E cfg ctx s1 = Some (Inr (s', m)))"
  using assms
  by (auto split: if_splits option.splits sum.splits turn_outcome.splits)

lemma run_loop_steps:
  "run_loop fuel E cfg ctx s = Some (Inr (s', m)) \<Longrightarrow>
   \<exists>new. steps s' = steps s @ new \<and> new \<noteq> [] \<and>
         turnCount s' = turnCount s + int (length new) \<and>
         currentAgent s' = last (currentAgent s # handoffs_of (concat (map ToolCalls new)))"
proof (induction fuel arbitrary: s)
  case 0
  then show ?case by simp
next
  case (Suc fuel)
  from run_loop_Suc_Inr[OF Suc.prems] show ?case
  proof
    assume "turn E cfg s = Inr (Break s' m)"
    from turn_Break[OF this] show ?thesis
      by (auto simp add: handoffs_of_def List.map_filter_def)
  next
    assume "\<exists>s1. turn E cfg s = Inr (Continue s1) \<and> run_loop fuel E cfg ctx s1 = Some (Inr (s', m))"
    then obtain s1 where t: "turn E cfg s = Inr (Continue s1)"
      and r: "run_loop fuel E cfg ctx s1 = Some (Inr (s', m))" by blast
    from turn_Continue[OF t] obtain tcs tm msgs recs where
      h: "handleToolCalls E tcs tm (contextVariables s) (currentAgent s)
            = ((msgs, recs, currentAgent s1), contextVariables s1)"
      and st: "steps s1 = steps s @ [\<lparr>AgentName = Name (currentAgent s), ToolCalls = recs,
                           StepNumber = turnCount s + 1\<rparr>]"
      and tc: "turnCount s1 = turnCount s + 1"
      by blast
    from handleToolCalls_shape[OF h] have a1: "currentAgent s1 = last (currentAgent s # handoffs_of recs)"
      by simp
    from Suc.IH[OF r] obtain new where
      n: "steps s' = steps s1 @ new" "new \<noteq> []" "turnCount s' = turnCount s1 + int (length new)"
         "currentAgent s' = last (currentAgent s1 # handoffs_of (concat (map ToolCalls new)))"
      by blast
    let ?step = "\<lparr>AgentName = Name (currentAgent s), ToolCalls = recs, StepNumber = turnCount s + 1\<rparr>"
    have "currentAgent s' = last (currentAgent s # handoffs_of (concat (map ToolCalls (?step # new))))"
      using n(4) a1 last_handoffs_step[of "currentAgent s" recs "concat (map ToolCalls new)"]
      by simp
    with n st tc show ?thesis
      by (intro exI[of _ "?step # new"]) simp
  qed
qed

lemma run_loop_history:
  "run_loop fuel E cfg ctx s = Some (Inr (s', m)) \<Longrightarrow>
   \<exists>new added. steps s' = steps s @ new \<and> history s' = history s @ added \<and>
         tool_outputs added = map history_text (concat (map ToolCalls new)) \<and>
         added \<noteq> [] \<and> last added = AssistantMessage m"
proof (induction fuel arbitrary: s)
  case 0
  then show ?case by simp
next
  case (Suc fuel)
  from run_loop_Suc_Inr[OF Suc.prems] show ?case
  proof
    assume "turn E cfg s = Inr (Break s' m)"
    from turn_Break[OF this] show ?thesis
      by auto
  next
    assume "\<exists>s1. turn E cfg s = Inr (Continue s1) \<and> run_loop fuel E cfg ctx s1 = Some (Inr (s', m))"
    then obtain s1 where t: "turn E cfg s = Inr (Continue s1)"
      and r: "run_loop fuel E cfg ctx s1 = Some (Inr (s', m))" by blast
    from turn_Continue[OF t] obtain tcs tm msgs recs am where
      h: "handleToolCalls E tcs tm (contextVariables s) (currentAgent s)
            = ((msgs, recs, currentAgent s1), contextVariables s1)"
      and st: "steps s1 = steps s @ [\<lparr>AgentName = Name (currentAgent s), ToolCalls = recs,
                           StepNumber = turnCount s + 1\<rparr>]"
      and hi: "history s1 = history s @ [AssistantMessage am] @ msgs"
      by blast
    from handleToolCalls_shape[OF h] have
      m: "tool_outputs msgs = map history_text recs"
      using tool_outputs_map2[of recs tcs history_text "\<lambda>tc. truncateID (tcID tc)"] by simp
    from Suc.IH[OF r] obtain new added where
      n: "steps s' = steps s1 @ new" "history s' = history s1 @ added"
         "tool_outputs added = map history_text (concat (map ToolCalls new))"
         "added \<noteq> []" "last added = AssistantMessage m"
      by blast
    let ?step = "\<lparr>AgentName = Name (currentAgent s), ToolCalls = recs, StepNumber = turnCount s + 1\<rparr>"
    from n st hi m show ?thesis
      by (intro exI[of _ "?step # new"] exI[of _ "[AssistantMessage am] @ msgs @ added"])
         (simp add: tool_outputs_append)
  qed
qed

subsection \<open>The call at a given position of a batch\<close>

lemma loop_append:
  "handleToolCalls_loop E (xs @ ys) tm acc cv =
     (case handleToolCalls_loop E xs tm acc cv of (acc', cv') \<Rightarrow> handleToolCalls_loop E ys tm acc' cv')"
proof (induction xs arbitrary: acc cv)
  case Nil
  then show ?case by (cases acc) auto
next
  case (Cons x xs)
  then show ?case by (cases acc) (auto split: prod.splits)
qed

lemma loop_prefix:
  "handleToolCalls_loop E tcs tm (ms, rs, n) cv = ((ms', rs', n'), cv') \<Longrightarrow>
   \<exists>ms2 rs2. ms' = ms @ ms2 \<and> rs' = rs @ rs2"
proof (induction tcs arbitrary: ms rs n cv)
  case Nil
  then show ?case by simp
next
  case (Cons tc tcs)
  obtain m r n1 cv1 where h: "handleToolCall E tm tc n cv = ((m, r, n1), cv1)"
    by (metis prod.exhaust)
  from Cons.prems h have
    "handleToolCalls_loop E tcs tm (ms @ [m], rs @ [r], n1) cv1 = ((ms', rs', n'), cv')"
    by simp
  from Cons.IH[OF this] show ?case by auto
qed

lemma handleToolCalls_nth:
  assumes full: "handleToolCalls E tcs tm cv a = ((msgs, recs, n), cv')"
    and j: "j < length tcs"
    and pre: "handleToolCalls E (take j tcs) tm cv a = ((ms_j, rs_j, n_j), cv_j)"
    and one: "handleToolCall E tm (tcs ! j) n_j cv_j = ((m, r, n1), cv1)"
  shows "msgs ! j = m \<and> recs ! j = r"
proof -
  have split: "tcs = take j tcs @ (tcs ! j) # drop (Suc j) tcs"
    using j by (simp add: id_take_nth_drop)
  from loop_shape[OF pre[unfolded handleToolCalls_def]] j
  have len: "length rs_j = j" "length ms_j = j" by auto
  have "handleToolCalls_loop E tcs tm ([], [], a) cv =
        handleToolCalls_loop E (drop (Suc j) tcs) tm (ms_j @ [m], rs_j @ [r], n1) cv1"
    using pre one
    by (subst split) (simp add: loop_append handleToolCalls_def)
  with full have "handleToolCalls_loop E (drop (Suc j) tcs) tm (ms_j @ [m], rs_j @ [r], n1) cv1
                   = ((msgs, recs, n), cv')"
    by (simp add: handleToolCalls_def)
  from loop_prefix[OF this] obtain ms2 rs2 where
    "msgs = (ms_j @ [m]) @ ms2" "recs = (rs_j @ [r]) @ rs2" by blast
  with len show ?thesis by (simp add: nth_append)
qed

subsection \<open>The structure of a run\<close>

lemma run_loop_steps_prefix:
  "run_loop fuel E cfg ctx s = Some (Inr (s', m)) \<Longrightarrow> \<exists>new. steps s' = steps s @ new"
  using run_loop_steps by blast

lemma after_loop_result:
  "fst (after_loop agent session sid s m) =
     Some \<lparr>Messages = history s, Agent = currentAgent s, Usage = usage s, Steps = steps s,
           FinalOutput = finalOutput_of (history s) m\<rparr>"
  by (simp add: after_loop_def Let_def split: option.splits prod.splits)

lemma Run_result:
  assumes "Run fuel E ctx agent messages cp config session sid = Some (Some r, e, sess)"
  shows "\<exists>c1 x1 s0 s m. before_loop E ctx agent messages cp config session sid = Inr (c1, x1, s0) \<and>
           run_loop fuel E c1 x1 s0 = Some (Inr (s, m)) \<and>
           after_loop agent session sid s m = (Some r, e, sess) \<and>
           Messages r = history s \<and> Agent r = currentAgent s \<and> Usage r = usage s \<and>
           Steps r = steps s \<and> FinalOutput r = finalOutput_of (history s) m"
proof (cases "before_loop E ctx agent messages cp config session sid")
  case (Inl err)
  with assms show ?thesis by (simp add: Run_def)
next
  case (Inr t)
  obtain c1 x1 s0 where t: "t = (c1, x1, s0)" by (cases t) auto
  show ?thesis
  proof (cases "run_loop fuel E c1 x1 s0")
    case None
    with assms Inr t show ?thesis by (simp add: Run_def)
  next
    case (Some out)
    show ?thesis
    proof (cases out)
      case (Inl err)
      with assms Inr t Some show ?thesis by (simp add: Run_def)
    next
      case (Inr sm)
      obtain s m where sm: "sm = (s, m)" by (cases sm) auto
      from assms \<open>before_loop E ctx agent messages cp config session sid = Inr t\<close> t Some Inr sm
      have al: "after_loop agent session sid s m = (Some r, e, sess)" by (simp add: Run_def)
      from after_loop_result[of agent session sid s m] al
      have "r = \<lparr>Messages = history s, Agent = currentAgent s, Usage = usage s, Steps = steps s,
           FinalOutput = finalOutput_of (history s) m\<rparr>" by simp
      with al \<open>before_loop E ctx agent messages cp config session sid = Inr t\<close> t Some Inr sm
      show ?thesis by simp
    qed
  qed
qed

lemma load_session_shape:
  "load_session session sid messages = Inr ms \<Longrightarrow> \<exists>loaded. ms = loaded @ messages"
proof (cases session)
  case None
  assume "load_session session sid messages = Inr ms"
  with None show ?thesis by (simp add: load_session_def)
next
  case (Some sess)
  assume a: "load_session session sid messages = Inr ms"
  show ?thesis
  proof (cases "sid = []")
    case True
    with a Some show ?thesis by (simp add: load_session_def)
  next
    case False
    show ?thesis
    proof (cases "Get sess (store sess) sid")
      case (Inl err)
      with a Some False show ?thesis by (cases err) (simp_all add: load_session_def)
    next
      case (Inr h)
      with a Some False show ?thesis by (auto simp add: load_session_def)
    qed
  qed
qed

lemma before_loop_state:
  assumes "before_loop E ctx agent messages cp config session sid = Inr (c1, x1, s0)"
  shows "currentAgent s0 = agent \<and> steps s0 = [] \<and> turnCount s0 = 0 \<and> usage s0 = zero_Usage \<and>
         (\<exists>loaded. history s0 = loaded @ messages) \<and> messages \<noteq> [] \<and>
         c1 = (case config of None \<Rightarrow> DefaultRunConfig | Some c \<Rightarrow> c) \<and>
         x1 = (if Timeout c1 > 0 then context_WithTimeout ctx (start_time E) (Timeout c1) else ctx)"
proof -
  from assms have ne: "messages \<noteq> []" by (auto simp add: before_loop_def split: if_splits)
  from assms ne obtain ms where l: "load_session session sid messages = Inr ms"
    and s0: "s0 = \<lparr>history = ms, currentAgent = agent, usage = zero_Usage,
                   steps = [], turnCount = 0,
                   contextVariables = (case cp of None \<Rightarrow> Map.empty | Some c \<Rightarrow> c)\<rparr>"
    and c1: "c1 = (case config of None \<Rightarrow> DefaultRunConfig | Some c \<Rightarrow> c)"
    and x1: "x1 = (if Timeout c1 > 0 then context_WithTimeout ctx (start_time E) (Timeout c1) else ctx)"
    by (auto simp add: before_loop_def Let_def split: option.splits sum.splits if_splits)
  from load_session_shape[OF l] s0 c1 x1 ne show ?thesis by auto
qed

subsection \<open>Runs that reach a given turn\<close>

text \<open>
  \<^const>\<open>state_after\<close> gives the state in which a turn begins when all the turns before it
  have continued the loop. A run that returns a result has passed through each of these states,
  and a run whose context stays live and whose turn limit is not reached resumes from them.
\<close>

lemma state_after_Suc:
  "state_after (Suc k) E cfg s0 = Some s \<Longrightarrow>
   \<exists>s1. turn E cfg s0 = Inr (Continue s1) \<and> state_after k E cfg s1 = Some s"
  by (auto split: sum.splits turn_outcome.splits)

lemma state_after_shape:
  "state_after k E cfg s0 = Some s \<Longrightarrow>
   turnCount s = turnCount s0 + int k \<and>
   (\<exists>new. steps s = steps s0 @ new \<and> length new = k) \<and>
   (\<exists>added. history s = history s0 @ added)"
proof (induction k arbitrary: s0)
  case 0
  then show ?case by simp
next
  case (Suc k)
  from state_after_Suc[OF Suc.prems] obtain s1 where
    t: "turn E cfg s0 = Inr (Continue s1)" and a: "state_after k E cfg s1 = Some s" by blast
  from turn_Continue[OF t] obtain msgs recs am where
    st: "steps s1 = steps s0 @ [\<lparr>AgentName = Name (currentAgent s0), ToolCalls = recs,
                           StepNumber = turnCount s0 + 1\<rparr>]"
    and hi: "history s1 = history s0 @ [AssistantMessage am] @ msgs"
    and tc: "turnCount s1 = turnCount s0 + 1"
    by blast
  from Suc.IH[OF a] obtain new added where
    "turnCount s = turnCount s1 + int k" "steps s = steps s1 @ new" "length new = k"
    "history s = history s1 @ added"
    by blast
  with st hi tc show ?case by simp
qed

lemma state_after_step:
  "state_after k E cfg s0 = Some s \<Longrightarrow> turn E cfg s = Inr (Continue s1) \<Longrightarrow>
   state_after (Suc k) E cfg s0 = Some s1"
proof (induction k arbitrary: s0)
  case 0
  then show ?case by simp
next
  case (Suc k)
  from state_after_Suc[OF Suc.prems(1)] obtain s' where
    t: "turn E cfg s0 = Inr (Continue s')" and a: "state_after k E cfg s' = Some s" by blast
  from Suc.IH[OF a Suc.prems(2)] t show ?case by simp
qed

lemma run_loop_through:
  "run_loop fuel E cfg ctx s0 = Some (Inr (sf, m)) \<Longrightarrow> state_after k E cfg s0 = Some s \<Longrightarrow>
   \<exists>f. run_loop f E cfg ctx s = Some (Inr (sf, m))"
proof (induction k arbitrary: s0 fuel)
  case 0
  then show ?case by auto
next
  case (Suc k)
  from state_after_Suc[OF Suc.prems(2)] obtain s1 where
    t: "turn E cfg s0 = Inr (Continue s1)" and a: "state_after k E cfg s1 = Some s" by blast
  from Suc.prems(1) obtain f where f: "fuel = Suc f" by (cases fuel) auto
  from run_loop_Suc_Inr[OF Suc.prems(1)[unfolded f]] t
  have "run_loop f E cfg ctx s1 = Some (Inr (sf, m))" by auto
  from Suc.IH[OF this a] show ?case .
qed

lemma run_loop_resume:
  "state_after k E cfg s0 = Some s \<Longrightarrow> 0 \<le> turnCount s0 \<Longrightarrow>
   \<forall>i<k. Context_Err ctx (clock E (nat (turnCount s0) + i)) = None \<Longrightarrow>
   \<not> (MaxTurns cfg > 0 \<and> turnCount s0 + int k > MaxTurns cfg) \<Longrightarrow>
   run_loop (k + fuel) E cfg ctx s0 = run_loop fuel E cfg ctx s"
proof (induction k arbitrary: s0)
  case 0
  then show ?case by simp
next
  case (Suc k)
  from state_after_Suc[OF Suc.prems(1)] obtain s1 where
    t: "turn E cfg s0 = Inr (Continue s1)" and a: "state_after k E cfg s1 = Some s" by blast
  from turn_Continue[OF t] have tc: "turnCount s1 = turnCount s0 + 1" by blast
  have m0: "\<not> (MaxTurns cfg > 0 \<and> turnCount s0 \<ge> MaxTurns cfg)" using Suc.prems(4) by auto
  have c0: "Context_Err ctx (clock E (nat (turnCount s0))) = None"
    using Suc.prems(3) by (metis add.right_neutral zero_less_Suc)
  have live: "\<forall>i<k. Context_Err ctx (clock E (nat (turnCount s1) + i)) = None"
  proof (intro allI impI)
    fix i assume "i < k"
    then have "Suc i < Suc k" by simp
    with Suc.prems(3) have "Context_Err ctx (clock E (nat (turnCount s0) + Suc i)) = None" by blast
    moreover have "nat (turnCount s1) + i = nat (turnCount s0) + Suc i"
      using tc Suc.prems(2) by simp
    ultimately show "Context_Err ctx (clock E (nat (turnCount s1) + i)) = None" by simp
  qed
  have mt: "\<not> (MaxTurns cfg > 0 \<and> turnCount s1 + int k > MaxTurns cfg)"
    using Suc.prems(4) tc by (simp add: algebra_simps)
  have "0 \<le> turnCount s1" using tc Suc.prems(2) by simp
  from Suc.IH[OF a this live mt]
  have "run_loop (k + fuel) E cfg ctx s1 = run_loop fuel E cfg ctx s" .
  with m0 c0 t show ?case by auto
qed

lemma Run_resume:
  assumes "before_loop E ctx agent messages cp config session sid = Inr (cfg, ctx1, s0)"
    and "state_after k E cfg s0 = Some s"
    and "\<forall>i<k. Context_Err ctx1 (clock E i) = None"
    and "\<not> (MaxTurns cfg > 0 \<and> int k > MaxTurns cfg)"
  shows "Run (k + fuel) E ctx agent messages cp config session sid =
          (case run_loop fuel E cfg ctx1 s of
             None \<Rightarrow> None
           | Some (Inl err) \<Rightarrow> Some (None, Some err, session)
           | Some (Inr (s', m)) \<Rightarrow> Some (after_loop agent session sid s' m))"
proof -
  from before_loop_state[OF assms(1)] have z: "turnCount s0 = 0" by simp
  from run_loop_resume[OF assms(2), where ctx = ctx1 and fuel = fuel] z assms(3,4)
  have "run_loop (k + fuel) E cfg ctx1 s0 = run_loop fuel E cfg ctx1 s" by simp
  with assms(1) show ?thesis by (simp add: Run_def)
qed

subsection \<open>A tool call inside a run\<close>

text \<open>
  What one call of a batch does is fixed by the tool map of the active agent, the decoding of
  the arguments and the callback of the tool; the message and the record of the call are found
  at the position of the call in the history and in the step of its turn.
\<close>

lemma handleToolCall_handoff:
  assumes "map_of tm (fnName tc) = Some tool"
    and "json_Unmarshal_args E (if fnArguments tc = [] then ''{}'' else fnArguments tc) = Inr args"
    and "Callback tool = Some cb"
    and "cb args cv = ((AnyAgent b, None), cv1)"
  shows "handleToolCall E tm tc n cv =
    ((ToolMessage (''Transferred to '' @ Name b) (truncateID (tcID tc)),
      \<lparr>ToolName = fnName tc, Arguments = fnArguments tc, Result = AnyAgent b, Error = None\<rparr>,
      b), cv1)"
proof -
  from Tool_Execute_callback[OF assms(2) assms(3), of cv] assms(4)
  have "Tool_Execute E tool (fnArguments tc) cv = ((AnyAgent b, None), cv1)" by simp
  from handleToolCall_ok[OF assms(1) this, of n] show ?thesis by simp
qed

lemma handleToolCall_failure:
  assumes "(map_of tm (fnName tc) = None \<and>
          text = ''Error: Tool '' @ fnName tc @ '' not found. Available tools: ''
                   @ Sprint_strings (range_order E tc (map fst tm)) \<and>
          err = ErrorString (''tool '' @ fnName tc @ '' not found (available: ''
                   @ Sprint_strings (range_order E tc (map fst tm)) @ '')'')) \<or>
         (\<exists>tool e.
            map_of tm (fnName tc) = Some tool \<and>
            text = ''Error executing tool '' @ fnName tc @ '': '' @ error_text e \<and>
            err = ToolExecutionError (fnName tc) e \<and>
            ((\<exists>de. json_Unmarshal_args E (if fnArguments tc = [] then ''{}'' else fnArguments tc)
                     = Inl de \<and>
                   e = Wrapf ''failed to unmarshal arguments: '' de) \<or>
             (\<exists>args. json_Unmarshal_args E (if fnArguments tc = [] then ''{}'' else fnArguments tc)
                     = Inr args \<and>
                   Callback tool = None \<and>
                   e = ErrorString (''tool '' @ tName tool @ '' has no callback function'')) \<or>
             (\<exists>args cb v cv1.
                   json_Unmarshal_args E (if fnArguments tc = [] then ''{}'' else fnArguments tc)
                     = Inr args \<and>
                   Callback tool = Some cb \<and> cb args cv = ((v, Some e), cv1))))"
  shows "\<exists>cv'. handleToolCall E tm tc n cv =
     ((ToolMessage text (truncateID (tcID tc)),
       \<lparr>ToolName = fnName tc, Arguments = fnArguments tc, Result = AnyString text,
        Error = Some err\<rparr>, n), cv')"
  using assms
proof
  assume a: "map_of tm (fnName tc) = None \<and>
          text = ''Error: Tool '' @ fnName tc @ '' not found. Available tools: ''
                   @ Sprint_strings (range_order E tc (map fst tm)) \<and>
          err = ErrorString (''tool '' @ fnName tc @ '' not found (available: ''
                   @ Sprint_strings (range_order E tc (map fst tm)) @ '')'')"
  then have "map_of tm (fnName tc) = None" by simp
  from handleToolCall_not_found[OF this, of E n cv] a show ?thesis by simp
next
  assume "\<exists>tool e.
            map_of tm (fnName tc) = Some tool \<and>
            text = ''Error executing tool '' @ fnName tc @ '': '' @ error_text e \<and>
            err = ToolExecutionError (fnName tc) e \<and>
            ((\<exists>de. json_Unmarshal_args E (if fnArguments tc = [] then ''{}'' else fnArguments tc)
                     = Inl de \<and>
                   e = Wrapf ''failed to unmarshal arguments: '' de) \<or>
             (\<exists>args. json_Unmarshal_args E (if fnArguments tc = [] then ''{}'' else fnArguments tc)
                     = Inr args \<and>
                   Callback tool = None \<and>
                   e = ErrorString (''tool '' @ tName tool @ '' has no callback function'')) \<or>
             (\<exists>args cb v cv1.
                   json_Unmarshal_args E (if fnArguments tc = [] then ''{}'' else fnArguments tc)
                     = Inr args \<and>
                   Callback tool = Some cb \<and> cb args cv = ((v, Some e), cv1)))"
  then obtain tool e where
    f: "map_of tm (fnName tc) = Some tool"
    and te: "text = ''Error executing tool '' @ fnName tc @ '': '' @ error_text e"
       "err = ToolExecutionError (fnName tc) e"
    and how: "(\<exists>de. json_Unmarshal_args E (if fnArguments tc = [] then ''{}'' else fnArguments tc)
                     = Inl de \<and>
                   e = Wrapf ''failed to unmarshal arguments: '' de) \<or>
             (\<exists>args. json_Unmarshal_args E (if fnArguments tc = [] then ''{}'' else fnArguments tc)
                     = Inr args \<and>
                   Callback tool = None \<and>
                   e = ErrorString (''tool '' @ tName tool @ '' has no callback function'')) \<or>
             (\<exists>args cb v cv1.
                   json_Unmarshal_args E (if fnArguments tc = [] then ''{}'' else fnArguments tc)
                     = Inr args \<and>
                   Callback tool = Some cb \<and> cb args cv = ((v, Some e), cv1))"
    by blast
  from how have "\<exists>v cv1. Tool_Execute E tool (fnArguments tc) cv = ((v, Some e), cv1)"
    by (auto simp add: Tool_Execute_def Let_def)
  then obtain v cv1 where "Tool_Execute E tool (fnArguments tc) cv = ((v, Some e), cv1)" by blast
  from handleToolCall_error[OF f this, of n] te show ?thesis by simp
qed

lemma handleToolCall_agent_origin:
  assumes "handleToolCall E tm tc n cv = ((m, r, n'), cv')" and "Result r = AnyAgent b"
  shows "\<exists>tool cb args. map_of tm (fnName tc) = Some tool \<and>
           json_Unmarshal_args E (if fnArguments tc = [] then ''{}'' else fnArguments tc) = Inr args \<and>
           Callback tool = Some cb \<and> cb args cv = ((AnyAgent b, None), cv')"
proof (cases "map_of tm (fnName tc)")
  case None
  from handleToolCall_not_found[OF None, of E n cv] assms show ?thesis by auto
next
  case (Some tool)
  obtain r0 eo c0 where ex: "Tool_Execute E tool (fnArguments tc) cv = ((r0, eo), c0)"
    by (metis prod.exhaust)
  show ?thesis
  proof (cases eo)
    case (Some e)
    from handleToolCall_error[OF \<open>map_of tm (fnName tc) = Some tool\<close> ex[unfolded Some], of n]
      assms show ?thesis by auto
  next
    case None
    from handleToolCall_ok[OF \<open>map_of tm (fnName tc) = Some tool\<close> ex[unfolded None], of n] assms
    have "r0 = AnyAgent b" "c0 = cv'" by auto
    with Tool_Execute_no_error[OF ex[unfolded None]] \<open>map_of tm (fnName tc) = Some tool\<close>
    show ?thesis by auto
  qed
qed

lemma last_handoffs_nth:
  assumes "j < length recs" and "Result (recs ! j) = AnyAgent b"
  shows "last (a # handoffs_of (recs @ rest)) = last (b # handoffs_of (drop (Suc j) recs @ rest))"
proof -
  have split: "recs = take j recs @ [recs ! j] @ drop (Suc j) recs"
    using assms(1) by (simp add: id_take_nth_drop)
  have one: "handoffs_of [recs ! j] = [b]"
    using assms(2) by (simp add: handoffs_of_def List.map_filter_def)
  from arg_cong[OF split, of handoffs_of]
  have "handoffs_of recs =
        handoffs_of (take j recs) @ handoffs_of [recs ! j] @ handoffs_of (drop (Suc j) recs)"
    by (simp only: handoffs_of_append)
  with one have "handoffs_of (recs @ rest) =
        handoffs_of (take j recs) @ [b] @ handoffs_of (drop (Suc j) recs @ rest)"
    by (simp add: handoffs_of_append)
  then show ?thesis by simp
qed

lemma turn_call:
  fixes choice :: ChatCompletionMessage and s :: loop_state
  defines "tcs \<equiv> MessageToolCalls (truncateToolCallIDs choice)"
    and "tm \<equiv> build_toolMap (Tools (currentAgent s))"
  assumes req: "prepareRequest (currentAgent s) cfg (map Tool_ToParam (Tools (currentAgent s))) (history s) = Inr req"
    and c: "Completions_New E (nat (turnCount s)) req = Inr c"
    and ch: "Choices c = choice # others"
    and j: "j < length tcs"
    and pre: "handleToolCalls E (take j tcs) tm (contextVariables s) (currentAgent s)
           = ((ms_j, rs_j, n_j), cv_j)"
    and one: "handleToolCall E tm (tcs ! j) n_j cv_j = ((m, r, n1), cv1)"
  shows "\<exists>s1 msgs recs.
           turn E cfg s = Inr (Continue s1) \<and>
           turnCount s1 = turnCount s + 1 \<and>
           history s1 = history s @ [AssistantMessage (truncateToolCallIDs choice)] @ msgs \<and>
           steps s1 = steps s @ [\<lparr>AgentName = Name (currentAgent s), ToolCalls = recs,
                                  StepNumber = turnCount s + 1\<rparr>] \<and>
           currentAgent s1 = last (currentAgent s # handoffs_of recs) \<and>
           length msgs = length tcs \<and> length recs = length tcs \<and>
           msgs ! j = m \<and> recs ! j = r"
proof -
  have ne: "MessageToolCalls choice \<noteq> []"
    using j by (auto simp add: tcs_def truncateToolCallIDs_def)
  from turn_with_tool_calls[OF req c ch ne]
  obtain s1 where t: "turn E cfg s = Inr (Continue s1)" by blast
  from turn_Continue[OF t] req c ch obtain msgs recs where
    h: "handleToolCalls E tcs tm (contextVariables s) (currentAgent s)
          = ((msgs, recs, currentAgent s1), contextVariables s1)"
    and hi: "history s1 = history s @ [AssistantMessage (truncateToolCallIDs choice)] @ msgs"
    and st: "steps s1 = steps s @ [\<lparr>AgentName = Name (currentAgent s), ToolCalls = recs,
                           StepNumber = turnCount s + 1\<rparr>]"
    and tc: "turnCount s1 = turnCount s + 1"
    by (auto simp add: tcs_def tm_def)
  from handleToolCalls_nth[OF h j pre one] have nth: "msgs ! j = m" "recs ! j = r" by simp_all
  from handleToolCalls_shape[OF h] have len: "length recs = length tcs" "length msgs = length tcs"
    and ag: "currentAgent s1 = last (currentAgent s # handoffs_of recs)"
    by simp_all
  from t hi st tc nth len ag show ?thesis by blast
qed

lemma run_call:
  fixes choice :: ChatCompletionMessage and s :: loop_state
  defines "tcs \<equiv> MessageToolCalls (truncateToolCallIDs choice)"
    and "tm \<equiv> build_toolMap (Tools (currentAgent s))"
  assumes run: "Run fuel E ctx agent messages cp config session sid = Some (Some r, e, sess)"
    and start: "before_loop E ctx agent messages cp config session sid = Inr (cfg, ctx1, s0)"
    and reach: "state_after k E cfg s0 = Some s"
    and req: "prepareRequest (currentAgent s) cfg (map Tool_ToParam (Tools (currentAgent s))) (history s) = Inr req"
    and c: "Completions_New E (nat (turnCount s)) req = Inr c"
    and ch: "Choices c = choice # others"
    and j: "j < length tcs"
    and pre: "handleToolCalls E (take j tcs) tm (contextVariables s) (currentAgent s)
           = ((ms_j, rs_j, n_j), cv_j)"
    and one: "handleToolCall E tm (tcs ! j) n_j cv_j = ((m, rec, n1), cv1)"
  shows "Suc k < length (Steps r) \<and>
         AgentName (Steps r ! k) = Name (currentAgent s) \<and>
         StepNumber (Steps r ! k) = int k + 1 \<and>
         length (ToolCalls (Steps r ! k)) = length tcs \<and>
         ToolCalls (Steps r ! k) ! j = rec \<and>
         length (history s) + 1 + j < length (Messages r) \<and>
         Messages r ! (length (history s)) = AssistantMessage (truncateToolCallIDs choice) \<and>
         Messages r ! (length (history s) + 1 + j) = m \<and>
         Agent r = last (currentAgent s # handoffs_of (ToolCalls (Steps r ! k)
                      @ concat (map ToolCalls (drop (Suc k) (Steps r)))))"
proof -
  from Run_result[OF run] start obtain sf mf where
    rl: "run_loop fuel E cfg ctx1 s0 = Some (Inr (sf, mf))"
    and res: "Messages r = history sf" "Agent r = currentAgent sf" "Steps r = steps sf"
    by auto
  from run_loop_through[OF rl reach] obtain f where
    rf: "run_loop f E cfg ctx1 s = Some (Inr (sf, mf))" by blast
  then obtain f' where f': "f = Suc f'" by (cases f) auto
  from turn_call[OF req c ch j[unfolded tcs_def] pre[unfolded tcs_def tm_def]
      one[unfolded tcs_def tm_def]]
  obtain s1 msgs recs where
    t: "turn E cfg s = Inr (Continue s1)"
    and tc: "turnCount s1 = turnCount s + 1"
    and hi: "history s1 = history s @ [AssistantMessage (truncateToolCallIDs choice)] @ msgs"
    and st: "steps s1 = steps s @ [\<lparr>AgentName = Name (currentAgent s), ToolCalls = recs,
                                  StepNumber = turnCount s + 1\<rparr>]"
    and ag: "currentAgent s1 = last (currentAgent s # handoffs_of recs)"
    and len: "length msgs = length tcs" "length recs = length tcs"
    and nth: "msgs ! j = m" "recs ! j = rec"
    unfolding tcs_def by blast
  from run_loop_Suc_Inr[OF rf[unfolded f']] t
  have r1: "run_loop f' E cfg ctx1 s1 = Some (Inr (sf, mf))" by auto
  from run_loop_steps[OF r1] obtain post where
    p: "steps sf = steps s1 @ post" "post \<noteq> []"
       "currentAgent sf = last (currentAgent s1 # handoffs_of (concat (map ToolCalls post)))"
    by blast
  from run_loop_history[OF r1] obtain added where
    a: "history sf = history s1 @ added" by blast
  from before_loop_state[OF start] have z: "steps s0 = []" "turnCount s0 = 0" by simp_all
  from state_after_shape[OF reach] z have
    k: "length (steps s) = k" "turnCount s = int k" by auto
  let ?step = "\<lparr>AgentName = Name (currentAgent s), ToolCalls = recs, StepNumber = turnCount s + 1\<rparr>"
  have S: "Steps r = steps s @ ?step # post" using res p st by simp
  have sk: "Steps r ! k = ?step" using S k by (simp add: nth_append)
  have dk: "drop (Suc k) (Steps r) = post" using S k by simp
  have lk: "Suc k < length (Steps r)" using S k p(2) by (cases post) simp_all
  have M: "Messages r = history s @ AssistantMessage (truncateToolCallIDs choice) # msgs @ added"
    using res a hi by simp
  have mj: "Messages r ! (length (history s) + 1 + j) = m"
    using M nth len j by (simp add: nth_append)
  have m0: "Messages r ! (length (history s)) = AssistantMessage (truncateToolCallIDs choice)"
    using M by (simp add: nth_append)
  have ml: "length (history s) + 1 + j < length (Messages r)"
    using M len j by simp
  have "Agent r = last (currentAgent s # handoffs_of (recs @ concat (map ToolCalls post)))"
    using res p(3) ag last_handoffs_step[of "currentAgent s" recs "concat (map ToolCalls post)"]
    by simp
  with sk dk lk mj m0 ml len nth k show ?thesis by simp
qed

lemma loop_origin:
  "handleToolCalls_loop E tcs tm (ms, rs, n) cv = ((ms', rs', n'), cv') \<Longrightarrow>
   rs' = rs @ rs2 \<Longrightarrow> i < length rs2 \<Longrightarrow> Result (rs2 ! i) = AnyAgent b \<Longrightarrow>
   \<exists>tool cb args v v'. map_of tm (fnName (tcs ! i)) = Some tool \<and>
      json_Unmarshal_args E (if fnArguments (tcs ! i) = [] then ''{}'' else fnArguments (tcs ! i))
        = Inr args \<and>
      Callback tool = Some cb \<and> cb args v = ((AnyAgent b, None), v')"
proof (induction tcs arbitrary: ms rs n cv rs2 i)
  case Nil
  then show ?case by simp
next
  case (Cons tc tcs)
  obtain m r n1 cv1 where h: "handleToolCall E tm tc n cv = ((m, r, n1), cv1)"
    by (metis prod.exhaust)
  from Cons.prems(1) h have
    l: "handleToolCalls_loop E tcs tm (ms @ [m], rs @ [r], n1) cv1 = ((ms', rs', n'), cv')"
    by simp
  from loop_prefix[OF l] obtain rs3 where r3: "rs' = (rs @ [r]) @ rs3" by blast
  with Cons.prems(2) have rs2: "rs2 = r # rs3" by simp
  show ?case
  proof (cases i)
    case 0
    with rs2 Cons.prems(4) have "Result r = AnyAgent b" by simp
    from handleToolCall_agent_origin[OF h this] obtain tool cb args where
      "map_of tm (fnName tc) = Some tool"
      "json_Unmarshal_args E (if fnArguments tc = [] then ''{}'' else fnArguments tc) = Inr args"
      "Callback tool = Some cb" and ret: "cb args cv = ((AnyAgent b, None), cv1)"
      by blast
    moreover have "\<exists>v v'. cb args v = ((AnyAgent b, None), v')"
      by (rule exI[of _ cv], rule exI[of _ cv1], rule ret)
    ultimately show ?thesis
      using 0 by (intro exI[of _ tool] exI[of _ cb] exI[of _ args]) (simp split: if_splits)
  next
    case (Suc i')
    with rs2 Cons.prems(3,4) have "i' < length rs3" "Result (rs3 ! i') = AnyAgent b" by simp_all
    from Cons.IH[OF l r3 this] show ?thesis unfolding Suc by (simp only: nth_Cons_Suc)
  qed
qed

lemma turn_origin:
  assumes "turn E cfg s = Inr (Continue s1)"
  shows "\<exists>step. steps s1 = steps s @ [step] \<and>
          (\<forall>i b. i < length (ToolCalls step) \<longrightarrow> Result (ToolCalls step ! i) = AnyAgent b \<longrightarrow>
             (\<exists>tool cb args v v'. tool \<in> set (Tools (currentAgent s)) \<and>
                Callback tool = Some cb \<and> cb args v = ((AnyAgent b, None), v')))"
proof -
  from turn_Continue[OF assms] obtain choice msgs recs where
    h: "handleToolCalls E (MessageToolCalls (truncateToolCallIDs choice))
          (build_toolMap (Tools (currentAgent s))) (contextVariables s) (currentAgent s)
          = ((msgs, recs, currentAgent s1), contextVariables s1)"
    and st: "steps s1 = steps s @ [\<lparr>AgentName = Name (currentAgent s), ToolCalls = recs,
                           StepNumber = turnCount s + 1\<rparr>]"
    by blast
  have "\<exists>tool cb args v v'. tool \<in> set (Tools (currentAgent s)) \<and>
          Callback tool = Some cb \<and> cb args v = ((AnyAgent b, None), v')"
    if "i < length recs" "Result (recs ! i) = AnyAgent b" for i b
  proof -
    from loop_origin[OF h[unfolded handleToolCalls_def], of recs i b] that
    obtain tool cb args v v' where
      "map_of (build_toolMap (Tools (currentAgent s)))
         (fnName (MessageToolCalls (truncateToolCallIDs choice) ! i)) = Some tool"
      "Callback tool = Some cb" "cb args v = ((AnyAgent b, None), v')"
      by auto
    with build_toolMap_mem show ?thesis by blast
  qed
  with st show ?thesis by simp
qed

lemma run_loop_origin:
  "run_loop fuel E cfg ctx s = Some (Inr (sf, m)) \<Longrightarrow> steps sf = steps s @ new \<Longrightarrow>
   i < length new \<Longrightarrow> j < length (ToolCalls (new ! i)) \<Longrightarrow>
   Result (ToolCalls (new ! i) ! j) = AnyAgent b \<Longrightarrow>
   \<exists>s' tool cb args v v'. state_after i E cfg s = Some s' \<and>
      tool \<in> set (Tools (currentAgent s')) \<and>
      Callback tool = Some cb \<and> cb args v = ((AnyAgent b, None), v')"
proof (induction fuel arbitrary: s new i)
  case 0
  then show ?case by simp
next
  case (Suc fuel)
  from run_loop_Suc_Inr[OF Suc.prems(1)] show ?case
  proof
    assume "turn E cfg s = Inr (Break sf m)"
    from turn_Break[OF this] Suc.prems(2) have
      "new = [\<lparr>AgentName = Name (currentAgent s), ToolCalls = [], StepNumber = turnCount s + 1\<rparr>]"
      by auto
    with Suc.prems(3,4) show ?thesis by simp
  next
    assume "\<exists>s1. turn E cfg s = Inr (Continue s1) \<and> run_loop fuel E cfg ctx s1 = Some (Inr (sf, m))"
    then obtain s1 where t: "turn E cfg s = Inr (Continue s1)"
      and r: "run_loop fuel E cfg ctx s1 = Some (Inr (sf, m))" by blast
    from turn_origin[OF t] obtain step where
      st: "steps s1 = steps s @ [step]"
      and org: "\<forall>i b. i < length (ToolCalls step) \<longrightarrow> Result (ToolCalls step ! i) = AnyAgent b \<longrightarrow>
             (\<exists>tool cb args v v'. tool \<in> set (Tools (currentAgent s)) \<and>
                Callback tool = Some cb \<and> cb args v = ((AnyAgent b, None), v'))"
      by blast
    from run_loop_steps_prefix[OF r] obtain post where p: "steps sf = steps s1 @ post" by blast
    with st Suc.prems(2) have new: "new = step # post" by simp
    show ?thesis
    proof (cases i)
      case 0
      with new Suc.prems(4,5) org show ?thesis by auto
    next
      case (Suc i')
      with new Suc.prems(3,4,5) have
        "i' < length post" "j < length (ToolCalls (post ! i'))"
        "Result (ToolCalls (post ! i') ! j) = AnyAgent b"
        by simp_all
      from Suc.IH[OF r p this] t Suc show ?thesis by auto
    qed
  qed
qed

lemma Run_origin:
  assumes "Run fuel E ctx agent messages cp config session sid = Some (Some r, e, sess)"
    and "before_loop E ctx agent messages cp config session sid = Inr (cfg, ctx1, s0)"
    and "i < length (Steps r)" and "j < length (ToolCalls (Steps r ! i))"
    and "Result (ToolCalls (Steps r ! i) ! j) = AnyAgent b"
  shows "\<exists>s' tool cb args v v'. state_after i E cfg s0 = Some s' \<and>
      tool \<in> set (Tools (currentAgent s')) \<and>
      Callback tool = Some cb \<and> cb args v = ((AnyAgent b, None), v')"
proof -
  from Run_result[OF assms(1)] assms(2) obtain sf mf where
    rl: "run_loop fuel E cfg ctx1 s0 = Some (Inr (sf, mf))"
    and res: "Steps r = steps sf"
    by auto
  from before_loop_state[OF assms(2)] have "steps s0 = []" by simp
  with res have "steps sf = steps s0 @ Steps r" by simp
  from run_loop_origin[OF rl this assms(3) assms(4) assms(5)] show ?thesis .
qed

subsection \<open>The scripted handoff run\<close>

lemma billing_sel [simp]:
  "Name billing_agent = ''Billing''" "Tools billing_agent = []" "Model billing_agent = DefaultModel"
  "Instructions billing_agent = InstructionsString ''You handle billing.''"
  "ParallelToolCalls billing_agent = True" "Temperature billing_agent = None"
  "MaxTokens billing_agent = None" "ResponseFormat billing_agent = None"
  "OnBeforeRun billing_agent = None" "OnAfterRun billing_agent = None"
  "InputGuardrails billing_agent = []" "OutputGuardrails billing_agent = [block_all]"
  by (simp_all add: billing_agent_def)

lemma triage_sel [simp]:
  "Name triage_agent = ''Triage''" "Tools triage_agent = [transfer_to_billing, lookup_order]"
  "Model triage_agent = DefaultModel"
  "Instructions triage_agent = InstructionsString ''You route requests.''"
  "ParallelToolCalls triage_agent = True" "Temperature triage_agent = None"
  "MaxTokens triage_agent = None" "ResponseFormat triage_agent = None"
  "OnBeforeRun triage_agent = None" "OnAfterRun triage_agent = None"
  "InputGuardrails triage_agent = []" "OutputGuardrails triage_agent = []"
  by (simp_all add: triage_agent_def)

lemma tool_sel [simp]:
  "tName transfer_to_billing = ''transfer_to_billing''" "tName lookup_order = ''lookup_order''"
  "Callback transfer_to_billing = Some (\<lambda>args vars. ((AnyAgent billing_agent, None), vars))"
  "Callback lookup_order = Some (\<lambda>args vars. ((AnyNil, Some (ErrorString ''connection failed'')), vars))"
  by (simp_all add: transfer_to_billing_def lookup_order_def)

lemma triage_toolMap [simp]:
  "build_toolMap [transfer_to_billing, lookup_order] =
     [(''transfer_to_billing'', transfer_to_billing), (''lookup_order'', lookup_order)]"
  by (simp add: build_toolMap_def)

lemma env_sel [simp]:
  "Completions_New (scripted_env script) k req = script k" "clock (scripted_env script) k = k"
  "start_time (scripted_env script) = 0" "json_Unmarshal_args (scripted_env script) a = Inr []"
  "range_order (scripted_env script) tc ks = rev ks"
  by (simp_all add: scripted_env_def)

lemma prepare_plain [simp]:
  "cfgResponseFormat cfg = None \<Longrightarrow> ResponseFormat a = None \<Longrightarrow>
   \<exists>req. prepareRequest a cfg tools h = Inr req"
  by (simp add: prepareRequest_def Let_def)

lemma turn_triage_handoff:
  "cfgResponseFormat cfg = None \<Longrightarrow>
   turn (scripted_env handoff_script) cfg
     \<lparr>history = h, currentAgent = triage_agent, usage = zero_Usage, steps = [], turnCount = 0,
      contextVariables = Map.empty\<rparr> =
   Inr (Continue
     \<lparr>history = h @ [AssistantMessage \<lparr>Content = [], Refusal = [],
            MessageToolCalls = [ToolCallRequest ''call_1'' ''transfer_to_billing'' ''{}'']\<rparr>,
         ToolMessage ''Transferred to Billing'' ''call_1''],
      currentAgent = billing_agent,
      usage = \<lparr>PromptTokens = 10, CompletionTokens = 5, TotalTokens = 15\<rparr>,
      steps = [\<lparr>AgentName = ''Triage'',
          ToolCalls = [\<lparr>ToolName = ''transfer_to_billing'', Arguments = ''{}'',
                        Result = AnyAgent billing_agent, Error = None\<rparr>],
          StepNumber = 1\<rparr>],
      turnCount = 1, contextVariables = Map.empty\<rparr>)"
  by (simp add: turn_def Let_def prepareRequest_def handoff_script_def reply_def
      truncateToolCallIDs_def truncateID_def handleToolCalls_def handleToolCall_def
      Tool_Execute_def Usage_Add_def zero_Usage_def)

lemma no_limits_sel [simp]:
  "MaxTurns no_limits = 0" "Timeout no_limits = 0" "cfgResponseFormat no_limits = None"
  "cfgTemperature no_limits = None" "cfgMaxTokens no_limits = None"
  "cfgParallelToolCalls no_limits = None"
  by (simp_all add: no_limits_def DefaultRunConfig_def)

lemma turn_billing_final:
  "cfgResponseFormat cfg = None \<Longrightarrow>
   turn (scripted_env handoff_script) cfg
     \<lparr>history = h, currentAgent = billing_agent, usage = u, steps = st, turnCount = 1,
      contextVariables = cv\<rparr> =
   Inr (Break
     \<lparr>history = h @ [AssistantMessage \<lparr>Content = ''Your refund is on its way.'', Refusal = [],
            MessageToolCalls = []\<rparr>],
      currentAgent = billing_agent,
      usage = Usage_Add u \<lparr>PromptTokens = 20, CompletionTokens = 8, TotalTokens = 28\<rparr>,
      steps = st @ [\<lparr>AgentName = ''Billing'', ToolCalls = [], StepNumber = 2\<rparr>],
      turnCount = 2, contextVariables = cv\<rparr>
     \<lparr>Content = ''Your refund is on its way.'', Refusal = [], MessageToolCalls = []\<rparr>)"
  by (simp add: turn_def Let_def prepareRequest_def handoff_script_def reply_def
      truncateToolCallIDs_def)

lemma background_Err [simp]: "Context_Err background t = None"
  by (simp add: background_def Context_Err_def)

lemma handoff_loop:
  "run_loop (Suc (Suc fuel)) (scripted_env handoff_script) no_limits background
     \<lparr>history = [UserMessage ''I want a refund''], currentAgent = triage_agent,
      usage = zero_Usage, steps = [], turnCount = 0, contextVariables = Map.empty\<rparr> =
   Some (Inr (\<lparr>history = Messages handoff_result, currentAgent = billing_agent,
                usage = Usage handoff_result, steps = Steps handoff_result, turnCount = 2,
                contextVariables = Map.empty\<rparr>,
              \<lparr>Content = ''Your refund is on its way.'', Refusal = [], MessageToolCalls = []\<rparr>))"
  by (simp add: turn_triage_handoff turn_billing_final handoff_result_def Usage_Add_def)

lemma handoff_run:
  "Run (Suc (Suc fuel)) (scripted_env handoff_script) background triage_agent
     [UserMessage ''I want a refund''] None (Some no_limits) (None :: unit Session option) []
   = Some (Some handoff_result, None, None)"
  by (simp add: Run_def before_loop_def load_session_def Let_def handoff_loop after_loop_def
      save_session_def finalOutput_of_def handoff_result_def del: run_loop.simps)

subsection \<open>The turns of the scripted handoff run\<close>

lemma handoff_turn_1:
  "turn (scripted_env handoff_script) no_limits (triage_start [UserMessage ''I want a refund''])
     = Inr (Continue handoff_mid)"
  using turn_triage_handoff[of no_limits "[UserMessage ''I want a refund'']"]
  by (simp add: triage_start_def handoff_mid_def)

lemma handoff_turn_2:
  "run_loop (Suc 0) (scripted_env handoff_script) no_limits background handoff_mid
     = Some (Inr (handoff_end, final_choice))"
  using turn_billing_final[of no_limits "history handoff_mid" "usage handoff_mid" "steps handoff_mid" Map.empty]
  by (simp add: handoff_mid_def handoff_end_def final_choice_def handoff_result_def Usage_Add_def)

lemma truncate_handoff_choice [simp]: "truncateToolCallIDs handoff_choice = handoff_choice"
  by (simp add: truncateToolCallIDs_def handoff_choice_def truncateID_def)

lemma handoff_choice_calls [simp]:
  "MessageToolCalls handoff_choice = [ToolCallRequest ''call_1'' ''transfer_to_billing'' ''{}'']"
  by (simp add: handoff_choice_def)

subsection \<open>The scripted run with failing calls\<close>

lemma failing_choice_calls [simp]: "MessageToolCalls failing_choice = failing_calls"
  by (simp add: failing_choice_def)

lemma truncate_failing_choice [simp]: "truncateToolCallIDs failing_choice = failing_choice"
  by (simp add: truncateToolCallIDs_def failing_choice_def failing_calls_def truncateID_def)

lemma failing_turn_1:
  "turn (scripted_env failing_script) no_limits (triage_start [UserMessage ''Where is my order?''])
     = Inr (Continue failing_mid)"
  by (simp add: turn_def Let_def prepareRequest_def failing_script_def reply_def
      truncateToolCallIDs_def truncateID_def handleToolCalls_def handleToolCall_def
      Tool_Execute_def Usage_Add_def zero_Usage_def triage_start_def failing_mid_def
      failing_choice_def failing_calls_def Sprint_strings_def NewToolExecutionError_def)

subsection \<open>Output guardrails after a handoff\<close>

text \<open>
  Claim C2. The triage agent has no output guardrail, the billing agent it hands off to
  has one that trips on every text. The run returns the result of billing with no error:
  \<^verbatim>\<open>Run\<close> checks the output guardrails of the agent passed in (runner.go, lines
  223-224), not those of the agent active at the end of the loop, which would have
  tripped here.
\<close>

theorem handoff_target_output_guardrails_skipped:
  "Run (Suc (Suc 0)) (scripted_env handoff_script) background triage_agent
     [UserMessage ''I want a refund''] None (Some no_limits) (None :: unit Session option) []
     = Some (Some handoff_result, None, None) \<and>
   Agent handoff_result = billing_agent \<and>
   OutputGuardrails triage_agent = [] \<and>
   FinalOutput handoff_result = ''Your refund is on its way.'' \<and>
   runOutputGuardrails (OutputGuardrails billing_agent) (FinalOutput handoff_result)
     = Some (OutputGuardrailTripwireError ''block_all'' ''blocked''
              \<lparr>Passed = False, TripwireTriggered = True, Message = ''blocked'', Metadata = []\<rparr>)"
  using handoff_run[of 0] by (simp add: handoff_result_def block_all_def)

subsection \<open>Loading a session that does not exist\<close>

text \<open>
  Claim C1. A run on a store that does not hold the session aborts with
  \<^verbatim>\<open>failed to load session\<close>, for the volatile and for the durable store: the error
  they return is of type \<^verbatim>\<open>session.NotFoundError\<close>, and the type assertion of
  \<^verbatim>\<open>Run\<close> (runner.go, line 96) accepts \<^verbatim>\<open>agents.NotFoundError\<close> only.
\<close>

theorem missing_session_aborts_run:
  "Run fuel E ctx (NewAgent ''Assistant'') [UserMessage ''My name is Alice''] None None
     (Some (MemorySession_impl NewMemorySession)) ''user_123''
     = Some (None,
             Some (Wrapf ''failed to load session: '' (SessionNotFoundError ''user_123'')),
             Some (MemorySession_impl NewMemorySession)) \<and>
   Run fuel E ctx (NewAgent ''Assistant'') [UserMessage ''My name is Alice''] None None
     (Some (FileSession_impl demo_FileSession empty_filesys)) ''user_123''
     = Some (None,
             Some (Wrapf ''failed to load session: '' (SessionNotFoundError ''user_123'')),
             Some (FileSession_impl demo_FileSession empty_filesys))"
  by (simp add: Run_def before_loop_def load_session_def Let_def NewAgent_def
      MemorySession_impl_def MemorySession_Get_def NewMemorySession_def
      FileSession_impl_def FileSession_Get_def os_ReadFile_def os_IsNotExist_def
      empty_filesys_def)

subsection \<open>Usage\<close>




lemma failing_turn_2:
  "run_loop (Suc 0) (scripted_env failing_script) no_limits background failing_mid
     = Some (Inr (\<lparr>history = Messages failing_result, currentAgent = triage_agent,
                    usage = Usage failing_result, steps = Steps failing_result, turnCount = 2,
                    contextVariables = Map.empty\<rparr>,
                  \<lparr>Content = ''I could not look the order up.'', Refusal = [],
                    MessageToolCalls = []\<rparr>))"
  by (simp add: turn_def Let_def prepareRequest_def failing_script_def reply_def
      truncateToolCallIDs_def failing_mid_def failing_result_def)

lemma failing_run:
  "Run (Suc (Suc 0)) (scripted_env failing_script) background triage_agent
     [UserMessage ''Where is my order?''] None (Some no_limits) (None :: unit Session option) []
   = Some (Some failing_result, None, None)"
proof -
  have b: "before_loop (scripted_env failing_script) background triage_agent
     [UserMessage ''Where is my order?''] None (Some no_limits) (None :: unit Session option) []
     = Inr (no_limits, background, triage_start [UserMessage ''Where is my order?''])"
    by (simp add: before_loop_def load_session_def Let_def triage_start_def)
  have l: "run_loop (Suc (Suc 0)) (scripted_env failing_script) no_limits background
     (triage_start [UserMessage ''Where is my order?''])
     = run_loop (Suc 0) (scripted_env failing_script) no_limits background failing_mid"
    using failing_turn_1 by (simp add: triage_start_def)
  show ?thesis
    unfolding Run_def b
    by (simp add: l failing_turn_2 after_loop_def save_session_def finalOutput_of_def Let_def
        failing_result_def del: run_loop.simps)
qed



subsection \<open>The errors of a run\<close>

lemma Context_Err_cases: "Context_Err c t = Some e \<Longrightarrow> e = DeadlineExceeded \<or> e = Canceled"
  by (auto simp add: Context_Err_def split: option.splits if_splits)

















subsection \<open>Contexts with a timeout\<close>

lemma WithTimeout_Canceled:
  "Context_Err (context_WithTimeout c now d) t = Some Canceled \<Longrightarrow> Context_Err c t = Some Canceled"
  by (auto simp add: Context_Err_def context_WithTimeout_def split: option.splits if_splits)

lemma WithTimeout_DeadlineExceeded:
  "Context_Err (context_WithTimeout c now d) t = Some DeadlineExceeded \<Longrightarrow>
   Context_Err c t = Some DeadlineExceeded \<or> now + nat d \<le> t"
  by (auto simp add: Context_Err_def context_WithTimeout_def min_def split: option.splits if_splits)

lemma slow_env_sel [simp]:
  "clock slow_env k = 10 * (k + 1)" "start_time slow_env = 0"
  "Completions_New slow_env k req = answer_script k"
  by (simp_all add: slow_env_def scripted_env_def)

lemma short_timeout_sel [simp]:
  "MaxTurns short_timeout = 0" "Timeout short_timeout = 5" "cfgResponseFormat short_timeout = None"
  by (simp_all add: short_timeout_def DefaultRunConfig_def)

lemma before_loop_plain:
  assumes "OnBeforeRun a = None" "InputGuardrails a = []"
  shows "before_loop E ctx a [UserMessage q] None (Some cfg) (None :: unit Session option) []
     = Inr (cfg, (if Timeout cfg > 0 then context_WithTimeout ctx (start_time E) (Timeout cfg) else ctx),
            \<lparr>history = [UserMessage q], currentAgent = a, usage = zero_Usage, steps = [],
             turnCount = 0, contextVariables = Map.empty\<rparr>)"
  using assms by (simp add: before_loop_def load_session_def Let_def)

subsection \<open>The turn limit\<close>















lemma two_turns_sel [simp]:
  "MaxTurns two_turns = 2" "Timeout two_turns = 0" "cfgResponseFormat two_turns = None"
  by (simp_all add: two_turns_def DefaultRunConfig_def)



subsection \<open>Fuel\<close>

text \<open>
  What a run returns does not depend on the fuel: with more fuel it returns the same.
\<close>

lemma run_loop_fuel_mono:
  "run_loop fuel E cfg ctx s = Some out \<Longrightarrow> run_loop (fuel + extra) E cfg ctx s = Some out"
proof (induction fuel arbitrary: s)
  case 0
  then show ?case by simp
next
  case (Suc fuel)
  then show ?case
    by (auto split: if_splits option.splits sum.splits turn_outcome.splits)
qed

lemma Run_fuel_mono:
  assumes "Run fuel E ctx agent messages cp config session sid = Some out"
  shows "Run (fuel + extra) E ctx agent messages cp config session sid = Some out"
proof (cases "before_loop E ctx agent messages cp config session sid")
  case (Inl err)
  with assms show ?thesis by (simp add: Run_def)
next
  case (Inr t)
  obtain c1 x1 s0 where t: "t = (c1, x1, s0)" by (cases t) auto
  from assms Inr t obtain o1 where o1: "run_loop fuel E c1 x1 s0 = Some o1"
    by (auto simp add: Run_def split: option.splits)
  from run_loop_fuel_mono[OF o1, of extra] assms Inr t o1 show ?thesis
    by (simp add: Run_def)
qed

subsection \<open>Handoffs inside a run\<close>

lemma triage_start_sel [simp]:
  "history (triage_start ms) = ms" "currentAgent (triage_start ms) = triage_agent"
  "usage (triage_start ms) = zero_Usage" "steps (triage_start ms) = []"
  "turnCount (triage_start ms) = 0" "contextVariables (triage_start ms) = Map.empty"
  by (simp_all add: triage_start_def)

lemma triage_before_loop:
  "Timeout cfg \<le> 0 \<Longrightarrow>
   before_loop E ctx triage_agent [UserMessage q] None (Some cfg) (None :: unit Session option) []
     = Inr (cfg, ctx, triage_start [UserMessage q])"
  by (simp add: before_loop_plain triage_start_def)

text \<open>
  Claim C5. Let a run return a result, and let the callback of call number \<open>j\<close> of the turn
  number \<open>k\<close> (both counted from \<open>0\<close>) return an agent \<open>b\<close> and no error. Then the agent of
  the result is the agent held by the last later record that holds one, and \<open>b\<close> itself when
  no later record holds an agent; every agent held by a record of the result was returned,
  with no error, by the callback of a tool of the agent that was active in the turn of the
  record; and the message of the call in the returned history is the notice
  \<^verbatim>\<open>Transferred to\<close> followed by the name of \<open>b\<close>, under the identifier of the call.
\<close>

theorem handoff_final_agent:
  fixes choice :: ChatCompletionMessage and s :: loop_state
  defines "tcs \<equiv> MessageToolCalls (truncateToolCallIDs choice)"
    and "tm \<equiv> build_toolMap (Tools (currentAgent s))"
  assumes run: "Run fuel E ctx agent messages cp config session sid = Some (Some r, e, sess)"
    and start: "before_loop E ctx agent messages cp config session sid = Inr (cfg, ctx1, s0)"
    and reach: "state_after k E cfg s0 = Some s"
    and req: "prepareRequest (currentAgent s) cfg (map Tool_ToParam (Tools (currentAgent s))) (history s) = Inr req"
    and c: "Completions_New E (nat (turnCount s)) req = Inr c"
    and ch: "Choices c = choice # others"
    and j: "j < length tcs"
    and pre: "handleToolCalls E (take j tcs) tm (contextVariables s) (currentAgent s)
           = ((ms_j, rs_j, n_j), cv_j)"
    and found: "map_of tm (fnName (tcs ! j)) = Some tool"
    and decode: "json_Unmarshal_args E
           (if fnArguments (tcs ! j) = [] then ''{}'' else fnArguments (tcs ! j)) = Inr a"
    and cb: "Callback tool = Some cb"
    and ret: "cb a cv_j = ((AnyAgent b, None), cv1)"
  shows "Agent r = last (b # handoffs_of (drop (Suc j) (ToolCalls (Steps r ! k))
                      @ concat (map ToolCalls (drop (Suc k) (Steps r))))) \<and>
         (\<forall>i j' b'. i < length (Steps r) \<longrightarrow> j' < length (ToolCalls (Steps r ! i)) \<longrightarrow>
            Result (ToolCalls (Steps r ! i) ! j') = AnyAgent b' \<longrightarrow>
            (\<exists>s' tool' cb' a' v v'. state_after i E cfg s0 = Some s' \<and>
               tool' \<in> set (Tools (currentAgent s')) \<and>
               Callback tool' = Some cb' \<and> cb' a' v = ((AnyAgent b', None), v'))) \<and>
         length (history s) + 1 + j < length (Messages r) \<and>
         Messages r ! (length (history s) + 1 + j)
           = ToolMessage (''Transferred to '' @ Name b) (truncateID (tcID (tcs ! j)))"
proof -
  note one = handleToolCall_handoff[OF found decode cb ret, of n_j]
  note rc = run_call[OF run start reach req c ch j[unfolded tcs_def]
      pre[unfolded tcs_def tm_def] one[unfolded tcs_def tm_def]]
  from rc have len: "j < length (ToolCalls (Steps r ! k))"
    and rec: "Result (ToolCalls (Steps r ! k) ! j) = AnyAgent b"
    using j by (simp_all add: tcs_def)
  from rc last_handoffs_nth[OF len rec, of "currentAgent s"
      "concat (map ToolCalls (drop (Suc k) (Steps r)))"]
  have ag: "Agent r = last (b # handoffs_of (drop (Suc j) (ToolCalls (Steps r ! k))
                      @ concat (map ToolCalls (drop (Suc k) (Steps r)))))"
    by simp
  have org: "\<forall>i j' b'. i < length (Steps r) \<longrightarrow> j' < length (ToolCalls (Steps r ! i)) \<longrightarrow>
            Result (ToolCalls (Steps r ! i) ! j') = AnyAgent b' \<longrightarrow>
            (\<exists>s' tool' cb' a' v v'. state_after i E cfg s0 = Some s' \<and>
               tool' \<in> set (Tools (currentAgent s')) \<and>
               Callback tool' = Some cb' \<and> cb' a' v = ((AnyAgent b', None), v'))"
    using Run_origin[OF run start] by blast
  from rc ag org show ?thesis by (simp add: tcs_def)
qed

text \<open>
  The scripted run: the callback of \<^verbatim>\<open>transfer_to_billing\<close> returns the billing agent in
  the first turn, and the billing agent answers in the second.
\<close>

theorem handoff_final_agent_witness:
  "Run (Suc (Suc 0)) (scripted_env handoff_script) background triage_agent
     [UserMessage ''I want a refund''] None (Some no_limits) (None :: unit Session option) []
     = Some (Some handoff_result, None, None) \<and>
   Callback transfer_to_billing = Some (\<lambda>args vars. ((AnyAgent billing_agent, None), vars)) \<and>
   Agent handoff_result = billing_agent \<and>
   Messages handoff_result ! 2 = ToolMessage ''Transferred to Billing'' ''call_1''"
proof -
  let ?E = "scripted_env handoff_script"
  let ?s = "triage_start [UserMessage ''I want a refund'']"
  have run: "Run (Suc (Suc 0)) ?E background triage_agent
     [UserMessage ''I want a refund''] None (Some no_limits) (None :: unit Session option) []
     = Some (Some handoff_result, None, None)"
    by (rule handoff_run)
  have start: "before_loop ?E background triage_agent
     [UserMessage ''I want a refund''] None (Some no_limits) (None :: unit Session option) []
     = Inr (no_limits, background, ?s)"
    by (simp add: triage_before_loop)
  have reach: "state_after 0 ?E no_limits ?s = Some ?s" by simp
  have "\<exists>req. prepareRequest (currentAgent ?s) no_limits
      (map Tool_ToParam (Tools (currentAgent ?s))) (history ?s) = Inr req"
    by (rule prepare_plain) simp_all
  then obtain req where req: "prepareRequest (currentAgent ?s) no_limits
      (map Tool_ToParam (Tools (currentAgent ?s))) (history ?s) = Inr req"
    by blast
  have c: "Completions_New ?E (nat (turnCount ?s)) req = Inr (reply [] (MessageToolCalls handoff_choice) (10, 5, 15))"
    by (simp add: handoff_script_def)
  have ch: "Choices (reply [] (MessageToolCalls handoff_choice) (10, 5, 15)) = handoff_choice # []"
    by (simp add: reply_def handoff_choice_def)
  have j: "0 < length (MessageToolCalls (truncateToolCallIDs handoff_choice))" by simp
  have pre: "handleToolCalls ?E (take 0 (MessageToolCalls (truncateToolCallIDs handoff_choice)))
       (build_toolMap (Tools (currentAgent ?s))) (contextVariables ?s) (currentAgent ?s)
       = (([], [], triage_agent), Map.empty)"
    by (simp add: handleToolCalls_def)
  have found: "map_of (build_toolMap (Tools (currentAgent ?s)))
       (fnName (MessageToolCalls (truncateToolCallIDs handoff_choice) ! 0)) = Some transfer_to_billing"
    by simp
  have decode: "json_Unmarshal_args ?E
       (if fnArguments (MessageToolCalls (truncateToolCallIDs handoff_choice) ! 0) = [] then ''{}''
        else fnArguments (MessageToolCalls (truncateToolCallIDs handoff_choice) ! 0)) = Inr []"
    by simp
  have cb: "Callback transfer_to_billing = Some (\<lambda>args vars. ((AnyAgent billing_agent, None), vars))"
    by simp
  have ret: "(\<lambda>args vars. ((AnyAgent billing_agent, None), vars)) [] Map.empty
       = ((AnyAgent billing_agent, None), Map.empty)"
    by simp
  from handoff_final_agent[OF run start reach req c ch j pre found decode cb ret] run cb
  show ?thesis
    by (simp add: handoff_result_def handoffs_of_def List.map_filter_def truncateID_def)
qed

text \<open>
  Claim C10. Let a run return a result, and let the callback of call number \<open>j\<close> of the turn
  number \<open>k\<close> (both counted from \<open>0\<close>) return an agent \<open>b\<close> and no error. Then the step
  number \<open>k\<close> of the result has, at position \<open>j\<close> of its tool calls, a record whose result is
  the agent \<open>b\<close> itself, with the name and the arguments of the call and no error, whereas
  the message of the call in the returned history holds the notice
  \<^verbatim>\<open>Transferred to\<close> followed by the name of \<open>b\<close>.
\<close>

theorem handoff_record_keeps_agent:
  fixes choice :: ChatCompletionMessage and s :: loop_state
  defines "tcs \<equiv> MessageToolCalls (truncateToolCallIDs choice)"
    and "tm \<equiv> build_toolMap (Tools (currentAgent s))"
  assumes run: "Run fuel E ctx agent messages cp config session sid = Some (Some r, e, sess)"
    and start: "before_loop E ctx agent messages cp config session sid = Inr (cfg, ctx1, s0)"
    and reach: "state_after k E cfg s0 = Some s"
    and req: "prepareRequest (currentAgent s) cfg (map Tool_ToParam (Tools (currentAgent s))) (history s) = Inr req"
    and c: "Completions_New E (nat (turnCount s)) req = Inr c"
    and ch: "Choices c = choice # others"
    and j: "j < length tcs"
    and pre: "handleToolCalls E (take j tcs) tm (contextVariables s) (currentAgent s)
           = ((ms_j, rs_j, n_j), cv_j)"
    and found: "map_of tm (fnName (tcs ! j)) = Some tool"
    and decode: "json_Unmarshal_args E
           (if fnArguments (tcs ! j) = [] then ''{}'' else fnArguments (tcs ! j)) = Inr a"
    and cb: "Callback tool = Some cb"
    and ret: "cb a cv_j = ((AnyAgent b, None), cv1)"
  shows "k < length (Steps r) \<and> j < length (ToolCalls (Steps r ! k)) \<and>
         ToolCalls (Steps r ! k) ! j
           = \<lparr>ToolName = fnName (tcs ! j), Arguments = fnArguments (tcs ! j),
              Result = AnyAgent b, Error = None\<rparr> \<and>
         AgentName (Steps r ! k) = Name (currentAgent s) \<and>
         StepNumber (Steps r ! k) = int k + 1 \<and>
         length (history s) + 1 + j < length (Messages r) \<and>
         Messages r ! (length (history s) + 1 + j)
           = ToolMessage (''Transferred to '' @ Name b) (truncateID (tcID (tcs ! j)))"
proof -
  note one = handleToolCall_handoff[OF found decode cb ret, of n_j]
  note rc = run_call[OF run start reach req c ch j[unfolded tcs_def]
      pre[unfolded tcs_def tm_def] one[unfolded tcs_def tm_def]]
  from rc j show ?thesis by (simp add: tcs_def)
qed

text \<open>
  The scripted run again: the record of the call holds the billing agent, the history holds
  the notice.
\<close>

theorem handoff_record_keeps_agent_witness:
  "Run (Suc (Suc 0)) (scripted_env handoff_script) background triage_agent
     [UserMessage ''I want a refund''] None (Some no_limits) (None :: unit Session option) []
     = Some (Some handoff_result, None, None) \<and>
   Callback transfer_to_billing = Some (\<lambda>args vars. ((AnyAgent billing_agent, None), vars)) \<and>
   ToolCalls (Steps handoff_result ! 0) ! 0
     = \<lparr>ToolName = ''transfer_to_billing'', Arguments = ''{}'',
        Result = AnyAgent billing_agent, Error = None\<rparr> \<and>
   Messages handoff_result ! 2 = ToolMessage ''Transferred to Billing'' ''call_1''"
proof -
  let ?E = "scripted_env handoff_script"
  let ?s = "triage_start [UserMessage ''I want a refund'']"
  have run: "Run (Suc (Suc 0)) ?E background triage_agent
     [UserMessage ''I want a refund''] None (Some no_limits) (None :: unit Session option) []
     = Some (Some handoff_result, None, None)"
    by (rule handoff_run)
  have start: "before_loop ?E background triage_agent
     [UserMessage ''I want a refund''] None (Some no_limits) (None :: unit Session option) []
     = Inr (no_limits, background, ?s)"
    by (simp add: triage_before_loop)
  have reach: "state_after 0 ?E no_limits ?s = Some ?s" by simp
  have "\<exists>req. prepareRequest (currentAgent ?s) no_limits
      (map Tool_ToParam (Tools (currentAgent ?s))) (history ?s) = Inr req"
    by (rule prepare_plain) simp_all
  then obtain req where req: "prepareRequest (currentAgent ?s) no_limits
      (map Tool_ToParam (Tools (currentAgent ?s))) (history ?s) = Inr req"
    by blast
  have c: "Completions_New ?E (nat (turnCount ?s)) req = Inr (reply [] (MessageToolCalls handoff_choice) (10, 5, 15))"
    by (simp add: handoff_script_def)
  have ch: "Choices (reply [] (MessageToolCalls handoff_choice) (10, 5, 15)) = handoff_choice # []"
    by (simp add: reply_def handoff_choice_def)
  have j: "0 < length (MessageToolCalls (truncateToolCallIDs handoff_choice))" by simp
  have pre: "handleToolCalls ?E (take 0 (MessageToolCalls (truncateToolCallIDs handoff_choice)))
       (build_toolMap (Tools (currentAgent ?s))) (contextVariables ?s) (currentAgent ?s)
       = (([], [], triage_agent), Map.empty)"
    by (simp add: handleToolCalls_def)
  have found: "map_of (build_toolMap (Tools (currentAgent ?s)))
       (fnName (MessageToolCalls (truncateToolCallIDs handoff_choice) ! 0)) = Some transfer_to_billing"
    by simp
  have decode: "json_Unmarshal_args ?E
       (if fnArguments (MessageToolCalls (truncateToolCallIDs handoff_choice) ! 0) = [] then ''{}''
        else fnArguments (MessageToolCalls (truncateToolCallIDs handoff_choice) ! 0)) = Inr []"
    by simp
  have cb: "Callback transfer_to_billing = Some (\<lambda>args vars. ((AnyAgent billing_agent, None), vars))"
    by simp
  have ret: "(\<lambda>args vars. ((AnyAgent billing_agent, None), vars)) [] Map.empty
       = ((AnyAgent billing_agent, None), Map.empty)"
    by simp
  from handoff_record_keeps_agent[OF run start reach req c ch j pre found decode cb ret] run cb
  show ?thesis
    by (simp add: truncateID_def numeral_2_eq_2)
qed

subsection \<open>Tool errors inside a run\<close>

lemma run_loop_Break:
  assumes "turn E cfg s = Inr (Break s2 m)"
    and "Context_Err ctx (clock E (nat (turnCount s))) = None"
    and "\<not> (MaxTurns cfg > 0 \<and> turnCount s \<ge> MaxTurns cfg)"
  shows "run_loop (Suc fuel) E cfg ctx s = Some (Inr (s2, m))"
  using assms by auto

text \<open>
  Claim C8. Let a run reach the turn number \<open>k\<close> (counted from \<open>0\<close>) with its context live
  and its turn limit not reached, and let call number \<open>j\<close> of the reply name a tool that the
  active agent does not have, or let its execution return an error: the arguments are not
  decoded, the tool has no callback, or the callback returns an error. Then the turn
  continues the loop, and the run is the loop resumed from the state after the turn. In that
  state, and in every result that the run returns, the message of the call is the error text
  under the identifier of the call, and the record of the call holds that text as its result
  and the structured error. When the next turn passes the checks and its reply has no tool
  calls, the run returns a result, with these messages and records. The names in the text of
  a missing tool come in the order in which the code ranges over the tool map.
\<close>

theorem tool_errors_do_not_abort:
  fixes choice :: ChatCompletionMessage and s :: loop_state
  defines "tcs \<equiv> MessageToolCalls (truncateToolCallIDs choice)"
    and "tm \<equiv> build_toolMap (Tools (currentAgent s))"
  assumes start: "before_loop E ctx agent messages cp config session sid = Inr (cfg, ctx1, s0)"
    and reach: "state_after k E cfg s0 = Some s"
    and live: "\<forall>i\<le>k. Context_Err ctx1 (clock E i) = None"
    and turns: "\<not> (MaxTurns cfg > 0 \<and> int k \<ge> MaxTurns cfg)"
    and req: "prepareRequest (currentAgent s) cfg (map Tool_ToParam (Tools (currentAgent s))) (history s) = Inr req"
    and c: "Completions_New E (nat (turnCount s)) req = Inr c"
    and ch: "Choices c = choice # others"
    and j: "j < length tcs"
    and pre: "handleToolCalls E (take j tcs) tm (contextVariables s) (currentAgent s)
           = ((ms_j, rs_j, n_j), cv_j)"
    and fail: "(map_of tm (fnName (tcs ! j)) = None \<and>
          text = ''Error: Tool '' @ fnName (tcs ! j) @ '' not found. Available tools: ''
                   @ Sprint_strings (range_order E (tcs ! j) (map fst tm)) \<and>
          err = ErrorString (''tool '' @ fnName (tcs ! j) @ '' not found (available: ''
                   @ Sprint_strings (range_order E (tcs ! j) (map fst tm)) @ '')'')) \<or>
         (\<exists>tool e.
            map_of tm (fnName (tcs ! j)) = Some tool \<and>
            text = ''Error executing tool '' @ fnName (tcs ! j) @ '': '' @ error_text e \<and>
            err = ToolExecutionError (fnName (tcs ! j)) e \<and>
            ((\<exists>de. json_Unmarshal_args E
                      (if fnArguments (tcs ! j) = [] then ''{}'' else fnArguments (tcs ! j))
                     = Inl de \<and>
                   e = Wrapf ''failed to unmarshal arguments: '' de) \<or>
             (\<exists>args. json_Unmarshal_args E
                      (if fnArguments (tcs ! j) = [] then ''{}'' else fnArguments (tcs ! j))
                     = Inr args \<and>
                   Callback tool = None \<and>
                   e = ErrorString (''tool '' @ tName tool @ '' has no callback function'')) \<or>
             (\<exists>args cb v cv1.
                   json_Unmarshal_args E
                      (if fnArguments (tcs ! j) = [] then ''{}'' else fnArguments (tcs ! j))
                     = Inr args \<and>
                   Callback tool = Some cb \<and> cb args cv_j = ((v, Some e), cv1))))"
  shows "\<exists>s1. state_after (Suc k) E cfg s0 = Some s1 \<and>
           turnCount s1 = int k + 1 \<and> length (steps s1) = Suc k \<and>
           length (history s) + 1 + j < length (history s1) \<and>
           history s1 ! (length (history s) + 1 + j)
             = ToolMessage text (truncateID (tcID (tcs ! j))) \<and>
           j < length (ToolCalls (steps s1 ! k)) \<and>
           ToolCalls (steps s1 ! k) ! j
             = \<lparr>ToolName = fnName (tcs ! j), Arguments = fnArguments (tcs ! j),
                Result = AnyString text, Error = Some err\<rparr> \<and>
           (\<forall>fuel. Run (Suc k + fuel) E ctx agent messages cp config session sid =
              (case run_loop fuel E cfg ctx1 s1 of
                 None \<Rightarrow> None
               | Some (Inl e') \<Rightarrow> Some (None, Some e', session)
               | Some (Inr (s', m)) \<Rightarrow> Some (after_loop agent session sid s' m))) \<and>
           (\<forall>fuel r e' sess.
              Run fuel E ctx agent messages cp config session sid = Some (Some r, e', sess) \<longrightarrow>
              Messages r ! (length (history s) + 1 + j)
                = ToolMessage text (truncateID (tcID (tcs ! j))) \<and>
              ToolCalls (Steps r ! k) ! j
                = \<lparr>ToolName = fnName (tcs ! j), Arguments = fnArguments (tcs ! j),
                   Result = AnyString text, Error = Some err\<rparr>) \<and>
           (\<forall>s2 m. Context_Err ctx1 (clock E (Suc k)) = None \<longrightarrow>
              \<not> (MaxTurns cfg > 0 \<and> int (Suc k) \<ge> MaxTurns cfg) \<longrightarrow>
              turn E cfg s1 = Inr (Break s2 m) \<longrightarrow>
              (\<exists>r e' sess.
                 (\<forall>fuel. Run (Suc (Suc k) + fuel) E ctx agent messages cp config session sid
                           = Some (Some r, e', sess)) \<and>
                 Agent r = currentAgent s1 \<and>
                 Messages r = history s1 @ [AssistantMessage m] \<and>
                 Steps r = steps s1 @ [\<lparr>AgentName = Name (currentAgent s1), ToolCalls = [],
                                         StepNumber = int k + 2\<rparr>] \<and>
                 Messages r ! (length (history s) + 1 + j)
                   = ToolMessage text (truncateID (tcID (tcs ! j))) \<and>
                 ToolCalls (Steps r ! k) ! j
                   = \<lparr>ToolName = fnName (tcs ! j), Arguments = fnArguments (tcs ! j),
                      Result = AnyString text, Error = Some err\<rparr>))"
proof -
  let ?m = "ToolMessage text (truncateID (tcID (tcs ! j)))"
  let ?rec = "\<lparr>ToolName = fnName (tcs ! j), Arguments = fnArguments (tcs ! j),
                Result = AnyString text, Error = Some err\<rparr>"
  from handleToolCall_failure[OF fail, of n_j] obtain cv' where
    one: "handleToolCall E tm (tcs ! j) n_j cv_j = ((?m, ?rec, n_j), cv')"
    by blast
  from turn_call[OF req c ch j[unfolded tcs_def] pre[unfolded tcs_def tm_def]
      one[unfolded tcs_def tm_def]]
  obtain s1 msgs recs where
    t: "turn E cfg s = Inr (Continue s1)"
    and tc: "turnCount s1 = turnCount s + 1"
    and hi: "history s1 = history s @ [AssistantMessage (truncateToolCallIDs choice)] @ msgs"
    and st: "steps s1 = steps s @ [\<lparr>AgentName = Name (currentAgent s), ToolCalls = recs,
                                  StepNumber = turnCount s + 1\<rparr>]"
    and len: "length msgs = length tcs" "length recs = length tcs"
    and nth: "msgs ! j = ?m" "recs ! j = ?rec"
    unfolding tcs_def by blast
  from before_loop_state[OF start] have z: "steps s0 = []" "turnCount s0 = 0" by simp_all
  from state_after_shape[OF reach] z have
    k: "length (steps s) = k" "turnCount s = int k" by auto
  have sa: "state_after (Suc k) E cfg s0 = Some s1" by (rule state_after_step[OF reach t])
  have tc1: "turnCount s1 = int k + 1" using tc k by simp
  have ls: "length (steps s1) = Suc k" using st k by simp
  have hl: "length (history s) + 1 + j < length (history s1)" using hi len j by simp
  have hj: "history s1 ! (length (history s) + 1 + j) = ?m"
    using hi nth len j by (simp add: nth_append)
  have rl: "j < length (ToolCalls (steps s1 ! k))" using st k len j by (simp add: nth_append)
  have rj: "ToolCalls (steps s1 ! k) ! j = ?rec" using st k nth by (simp add: nth_append)
  have live': "\<forall>i<Suc k. Context_Err ctx1 (clock E i) = None" using live by simp
  have turns': "\<not> (MaxTurns cfg > 0 \<and> int (Suc k) > MaxTurns cfg)" using turns by auto
  have A: "\<forall>fuel. Run (Suc k + fuel) E ctx agent messages cp config session sid =
              (case run_loop fuel E cfg ctx1 s1 of
                 None \<Rightarrow> None
               | Some (Inl e') \<Rightarrow> Some (None, Some e', session)
               | Some (Inr (s', m)) \<Rightarrow> Some (after_loop agent session sid s' m))"
    using Run_resume[OF start sa live' turns'] by blast
  have B: "\<forall>fuel r e' sess.
              Run fuel E ctx agent messages cp config session sid = Some (Some r, e', sess) \<longrightarrow>
              Messages r ! (length (history s) + 1 + j) = ?m \<and>
              ToolCalls (Steps r ! k) ! j = ?rec"
  proof (intro allI impI)
    fix fuel r e' sess
    assume run: "Run fuel E ctx agent messages cp config session sid = Some (Some r, e', sess)"
    from run_call[OF run start reach req c ch j[unfolded tcs_def]
      pre[unfolded tcs_def tm_def] one[unfolded tcs_def tm_def]]
    show "Messages r ! (length (history s) + 1 + j) = ?m \<and> ToolCalls (Steps r ! k) ! j = ?rec"
      by (simp add: tcs_def)
  qed
  have C: "\<exists>r e' sess.
                 (\<forall>fuel. Run (Suc (Suc k) + fuel) E ctx agent messages cp config session sid
                           = Some (Some r, e', sess)) \<and>
                 Agent r = currentAgent s1 \<and>
                 Messages r = history s1 @ [AssistantMessage m] \<and>
                 Steps r = steps s1 @ [\<lparr>AgentName = Name (currentAgent s1), ToolCalls = [],
                                         StepNumber = int k + 2\<rparr>] \<and>
                 Messages r ! (length (history s) + 1 + j) = ?m \<and>
                 ToolCalls (Steps r ! k) ! j = ?rec"
    if c1: "Context_Err ctx1 (clock E (Suc k)) = None"
      and m1: "\<not> (MaxTurns cfg > 0 \<and> int (Suc k) \<ge> MaxTurns cfg)"
      and t2: "turn E cfg s1 = Inr (Break s2 m)" for s2 m
  proof -
    have n1: "nat (turnCount s1) = Suc k" using tc1 by simp
    have p1: "Context_Err ctx1 (clock E (nat (turnCount s1))) = None" using c1 n1 by simp
    have p2: "\<not> (MaxTurns cfg > 0 \<and> turnCount s1 \<ge> MaxTurns cfg)" using m1 tc1 by auto
    have rl2: "run_loop (Suc fuel) E cfg ctx1 s1 = Some (Inr (s2, m))" for fuel
      by (rule run_loop_Break[OF t2 p1 p2])
    from turn_Break[OF t2] have
      b: "currentAgent s2 = currentAgent s1" "history s2 = history s1 @ [AssistantMessage m]"
         "steps s2 = steps s1 @ [\<lparr>AgentName = Name (currentAgent s1), ToolCalls = [],
                           StepNumber = turnCount s1 + 1\<rparr>]"
      by auto
    obtain ro e' sess where al: "after_loop agent session sid s2 m = (ro, e', sess)"
      by (metis prod.exhaust)
    let ?r = "\<lparr>Messages = history s2, Agent = currentAgent s2, Usage = usage s2, Steps = steps s2,
           FinalOutput = finalOutput_of (history s2) m\<rparr>"
    from after_loop_result[of agent session sid s2 m] al have ro: "ro = Some ?r" by simp
    have run: "Run (Suc (Suc k) + fuel) E ctx agent messages cp config session sid
                 = Some (Some ?r, e', sess)" for fuel
    proof -
      from A[rule_format, of "Suc fuel"] rl2[of fuel] al ro show ?thesis
        by (simp del: run_loop.simps)
    qed
    have "Messages ?r ! (length (history s) + 1 + j) = ?m"
      using b hj hl by (simp add: nth_append)
    moreover have "ToolCalls (Steps ?r ! k) ! j = ?rec"
      using b rj ls by (simp add: nth_append)
    moreover have "Steps ?r = steps s1 @ [\<lparr>AgentName = Name (currentAgent s1), ToolCalls = [],
                                         StepNumber = int k + 2\<rparr>]"
      using b tc1 by simp
    moreover have "Agent ?r = currentAgent s1" "Messages ?r = history s1 @ [AssistantMessage m]"
      using b by simp_all
    ultimately show ?thesis using run by blast
  qed
  from sa tc1 ls hl hj rl rj A B C show ?thesis
    unfolding tcs_def by blast
qed

text \<open>
  The scripted run: in the first turn the callback of \<^verbatim>\<open>lookup_order\<close> returns an error
  and \<^verbatim>\<open>refund_order\<close> is not a tool of the agent; the run goes on and returns the
  answer of the second turn.
\<close>

theorem tool_errors_do_not_abort_witness:
  "Callback lookup_order
     = Some (\<lambda>args vars. ((AnyNil, Some (ErrorString ''connection failed'')), vars)) \<and>
   map_of (build_toolMap (Tools triage_agent)) ''refund_order'' = None \<and>
   state_after (Suc 0) (scripted_env failing_script) no_limits
     (triage_start [UserMessage ''Where is my order?'']) = Some failing_mid \<and>
   Run (Suc (Suc 0)) (scripted_env failing_script) background triage_agent
     [UserMessage ''Where is my order?''] None (Some no_limits) (None :: unit Session option) []
     = Some (Some failing_result, None, None) \<and>
   Messages failing_result ! 2
     = ToolMessage ''Error executing tool lookup_order: connection failed'' ''call_1'' \<and>
   Messages failing_result ! 3
     = ToolMessage ''Error: Tool refund_order not found. Available tools: [lookup_order transfer_to_billing]'' ''call_2'' \<and>
   ToolCalls (Steps failing_result ! 0) ! 0
     = \<lparr>ToolName = ''lookup_order'', Arguments = ''{}'',
        Result = AnyString ''Error executing tool lookup_order: connection failed'',
        Error = Some (ToolExecutionError ''lookup_order'' (ErrorString ''connection failed''))\<rparr> \<and>
   ToolCalls (Steps failing_result ! 0) ! 1
     = \<lparr>ToolName = ''refund_order'', Arguments = ''{}'',
        Result = AnyString ''Error: Tool refund_order not found. Available tools: [lookup_order transfer_to_billing]'',
        Error = Some (ErrorString ''tool refund_order not found (available: [lookup_order transfer_to_billing])'')\<rparr>"
proof -
  let ?E = "scripted_env failing_script"
  let ?s = "triage_start [UserMessage ''Where is my order?'']"
  let ?tcs = "MessageToolCalls (truncateToolCallIDs failing_choice)"
  let ?tm = "build_toolMap (Tools (currentAgent ?s))"
  let ?e = "ErrorString ''connection failed''"
  let ?text0 = "''Error executing tool '' @ fnName (?tcs ! 0) @ '': '' @ error_text ?e"
  let ?err0 = "ToolExecutionError (fnName (?tcs ! 0)) ?e"
  let ?text1 = "''Error: Tool '' @ fnName (?tcs ! 1) @ '' not found. Available tools: ''
                   @ Sprint_strings (range_order ?E (?tcs ! 1) (map fst ?tm))"
  let ?err1 = "ErrorString (''tool '' @ fnName (?tcs ! 1) @ '' not found (available: ''
                   @ Sprint_strings (range_order ?E (?tcs ! 1) (map fst ?tm)) @ '')'')"
  have run: "Run (Suc (Suc 0)) ?E background triage_agent
     [UserMessage ''Where is my order?''] None (Some no_limits) (None :: unit Session option) []
     = Some (Some failing_result, None, None)"
    by (rule failing_run)
  have start: "before_loop ?E background triage_agent
     [UserMessage ''Where is my order?''] None (Some no_limits) (None :: unit Session option) []
     = Inr (no_limits, background, ?s)"
    by (simp add: triage_before_loop)
  have reach: "state_after 0 ?E no_limits ?s = Some ?s" by simp
  have live: "\<forall>i\<le>0. Context_Err background (clock ?E i) = None" by simp
  have turns: "\<not> (MaxTurns no_limits > 0 \<and> int 0 \<ge> MaxTurns no_limits)" by simp
  have "\<exists>req. prepareRequest (currentAgent ?s) no_limits
      (map Tool_ToParam (Tools (currentAgent ?s))) (history ?s) = Inr req"
    by (rule prepare_plain) simp_all
  then obtain req where req: "prepareRequest (currentAgent ?s) no_limits
      (map Tool_ToParam (Tools (currentAgent ?s))) (history ?s) = Inr req"
    by blast
  have c: "Completions_New ?E (nat (turnCount ?s)) req = Inr (reply [] failing_calls (12, 7, 19))"
    by (simp add: failing_script_def failing_calls_def)
  have ch: "Choices (reply [] failing_calls (12, 7, 19)) = failing_choice # []"
    by (simp add: reply_def failing_choice_def)
  have j0: "0 < length ?tcs" by (simp add: failing_calls_def)
  have j1: "1 < length ?tcs" by (simp add: failing_calls_def)
  have pre0: "handleToolCalls ?E (take 0 ?tcs) ?tm (contextVariables ?s) (currentAgent ?s)
       = (([], [], triage_agent), Map.empty)"
    by (simp add: handleToolCalls_def)
  have pre1: "handleToolCalls ?E (take 1 ?tcs) ?tm (contextVariables ?s) (currentAgent ?s)
       = (([ToolMessage ''Error executing tool lookup_order: connection failed'' ''call_1''],
           [\<lparr>ToolName = ''lookup_order'', Arguments = ''{}'',
             Result = AnyString ''Error executing tool lookup_order: connection failed'',
             Error = Some (ToolExecutionError ''lookup_order'' ?e)\<rparr>],
           triage_agent), Map.empty)"
    by (simp add: handleToolCalls_def handleToolCall_def Tool_Execute_def Let_def failing_calls_def
        truncateID_def NewToolExecutionError_def)
  have cb: "Callback lookup_order
     = Some (\<lambda>args vars. ((AnyNil, Some (ErrorString ''connection failed'')), vars))"
    by simp
  have missing: "map_of (build_toolMap (Tools triage_agent)) ''refund_order'' = None" by simp
  have fail0: "(map_of ?tm (fnName (?tcs ! 0)) = None \<and>
          ?text0 = ''Error: Tool '' @ fnName (?tcs ! 0) @ '' not found. Available tools: ''
                   @ Sprint_strings (range_order ?E (?tcs ! 0) (map fst ?tm)) \<and>
          ?err0 = ErrorString (''tool '' @ fnName (?tcs ! 0) @ '' not found (available: ''
                   @ Sprint_strings (range_order ?E (?tcs ! 0) (map fst ?tm)) @ '')'')) \<or>
         (\<exists>tool e.
            map_of ?tm (fnName (?tcs ! 0)) = Some tool \<and>
            ?text0 = ''Error executing tool '' @ fnName (?tcs ! 0) @ '': '' @ error_text e \<and>
            ?err0 = ToolExecutionError (fnName (?tcs ! 0)) e \<and>
            ((\<exists>de. json_Unmarshal_args ?E
                      (if fnArguments (?tcs ! 0) = [] then ''{}'' else fnArguments (?tcs ! 0))
                     = Inl de \<and>
                   e = Wrapf ''failed to unmarshal arguments: '' de) \<or>
             (\<exists>args. json_Unmarshal_args ?E
                      (if fnArguments (?tcs ! 0) = [] then ''{}'' else fnArguments (?tcs ! 0))
                     = Inr args \<and>
                   Callback tool = None \<and>
                   e = ErrorString (''tool '' @ tName tool @ '' has no callback function'')) \<or>
             (\<exists>args cb v cv1.
                   json_Unmarshal_args ?E
                      (if fnArguments (?tcs ! 0) = [] then ''{}'' else fnArguments (?tcs ! 0))
                     = Inr args \<and>
                   Callback tool = Some cb \<and> cb args Map.empty = ((v, Some e), cv1))))"
    by (rule disjI2, rule exI[of _ lookup_order], rule exI[of _ ?e])
       (simp add: failing_calls_def)
  have fail1: "(map_of ?tm (fnName (?tcs ! 1)) = None \<and>
          ?text1 = ''Error: Tool '' @ fnName (?tcs ! 1) @ '' not found. Available tools: ''
                   @ Sprint_strings (range_order ?E (?tcs ! 1) (map fst ?tm)) \<and>
          ?err1 = ErrorString (''tool '' @ fnName (?tcs ! 1) @ '' not found (available: ''
                   @ Sprint_strings (range_order ?E (?tcs ! 1) (map fst ?tm)) @ '')'')) \<or>
         (\<exists>tool e.
            map_of ?tm (fnName (?tcs ! 1)) = Some tool \<and>
            ?text1 = ''Error executing tool '' @ fnName (?tcs ! 1) @ '': '' @ error_text e \<and>
            ?err1 = ToolExecutionError (fnName (?tcs ! 1)) e \<and>
            ((\<exists>de. json_Unmarshal_args ?E
                      (if fnArguments (?tcs ! 1) = [] then ''{}'' else fnArguments (?tcs ! 1))
                     = Inl de \<and>
                   e = Wrapf ''failed to unmarshal arguments: '' de) \<or>
             (\<exists>args. json_Unmarshal_args ?E
                      (if fnArguments (?tcs ! 1) = [] then ''{}'' else fnArguments (?tcs ! 1))
                     = Inr args \<and>
                   Callback tool = None \<and>
                   e = ErrorString (''tool '' @ tName tool @ '' has no callback function'')) \<or>
             (\<exists>args cb v cv1.
                   json_Unmarshal_args ?E
                      (if fnArguments (?tcs ! 1) = [] then ''{}'' else fnArguments (?tcs ! 1))
                     = Inr args \<and>
                   Callback tool = Some cb \<and> cb args Map.empty = ((v, Some e), cv1))))"
    by (rule disjI1) (simp add: failing_calls_def)
  note th0 = tool_errors_do_not_abort[OF start reach live turns req c ch j0 pre0 fail0]
  note th1 = tool_errors_do_not_abort[OF start reach live turns req c ch j1 pre1 fail1]
  from th0 obtain s1 where
    sa: "state_after (Suc 0) ?E no_limits ?s = Some s1"
    and b0: "\<forall>fuel r e' sess.
      Run fuel ?E background triage_agent [UserMessage ''Where is my order?''] None
        (Some no_limits) (None :: unit Session option) [] = Some (Some r, e', sess) \<longrightarrow>
      Messages r ! (length (history ?s) + 1 + 0) = ToolMessage ?text0 (truncateID (tcID (?tcs ! 0))) \<and>
      ToolCalls (Steps r ! 0) ! 0 = \<lparr>ToolName = fnName (?tcs ! 0), Arguments = fnArguments (?tcs ! 0),
                   Result = AnyString ?text0, Error = Some ?err0\<rparr>"
    by blast
  from th1 have
    b1: "\<forall>fuel r e' sess.
      Run fuel ?E background triage_agent [UserMessage ''Where is my order?''] None
        (Some no_limits) (None :: unit Session option) [] = Some (Some r, e', sess) \<longrightarrow>
      Messages r ! (length (history ?s) + 1 + 1) = ToolMessage ?text1 (truncateID (tcID (?tcs ! 1))) \<and>
      ToolCalls (Steps r ! 0) ! 1 = \<lparr>ToolName = fnName (?tcs ! 1), Arguments = fnArguments (?tcs ! 1),
                   Result = AnyString ?text1, Error = Some ?err1\<rparr>"
    by blast
  have mid: "state_after (Suc 0) ?E no_limits ?s = Some failing_mid"
    using failing_turn_1 by simp
  from b0[rule_format, OF run] b1[rule_format, OF run] run cb missing mid
  show ?thesis
    by (simp add: failing_calls_def truncateID_def Sprint_strings_def numeral_2_eq_2 numeral_3_eq_3)
qed

subsection \<open>Expired contexts inside a run\<close>

lemma late_env_sel [simp]:
  "clock late_env k = 10 * k" "start_time late_env = 0"
  "Completions_New late_env k req = handoff_script k"
  "json_Unmarshal_args late_env a = Inr []"
  by (simp_all add: late_env_def scripted_env_def)

lemma late_turn_1:
  "turn late_env short_timeout (triage_start [UserMessage ''I want a refund''])
     = Inr (Continue handoff_mid)"
  by (simp add: turn_def Let_def prepareRequest_def handoff_script_def reply_def
      truncateToolCallIDs_def truncateID_def handleToolCalls_def handleToolCall_def
      Tool_Execute_def Usage_Add_def zero_Usage_def handoff_mid_def)

text \<open>
  Claim C3, amended. Let a run reach the turn number \<open>k\<close> (counted from \<open>0\<close>) with its
  context live at the turns before and its turn limit not reached, and let its context be
  done at the top of that turn. Then the run returns no result and an error: the timeout
  error exactly when the context reports an exceeded deadline, and the cancellation error of
  the caller unchanged otherwise. The deadline is the configured timeout or a deadline of
  the caller's context; without a configured timeout the context of the run is the caller's.
\<close>

theorem expired_context_error:
  assumes start: "before_loop E ctx agent messages cp config session sid = Inr (cfg, ctx1, s0)"
    and reach: "state_after k E cfg s0 = Some s"
    and live: "\<forall>i<k. Context_Err ctx1 (clock E i) = None"
    and turns: "\<not> (MaxTurns cfg > 0 \<and> int k \<ge> MaxTurns cfg)"
    and expired: "Context_Err ctx1 (clock E k) = Some err"
  shows "Run (Suc (k + fuel)) E ctx agent messages cp config session sid
           = Some (None, Some (if err = DeadlineExceeded then ErrTimeout else err), session) \<and>
         (Run (Suc (k + fuel)) E ctx agent messages cp config session sid
            = Some (None, Some ErrTimeout, session)) = (err = DeadlineExceeded) \<and>
         (err = DeadlineExceeded \<or> err = Canceled) \<and>
         (err = Canceled \<longrightarrow> Context_Err ctx (clock E k) = Some Canceled) \<and>
         (err = DeadlineExceeded \<longrightarrow>
            Context_Err ctx (clock E k) = Some DeadlineExceeded \<or>
            (0 < Timeout cfg \<and> start_time E + nat (Timeout cfg) \<le> clock E k)) \<and>
         (Timeout cfg \<le> 0 \<longrightarrow> Context_Err ctx (clock E k) = Some err)"
proof -
  let ?t = "clock E k"
  from before_loop_state[OF start]
  have x: "ctx1 = (if Timeout cfg > 0 then context_WithTimeout ctx (start_time E) (Timeout cfg) else ctx)"
    and z: "turnCount s0 = 0"
    by simp_all
  from state_after_shape[OF reach] z have tc: "turnCount s = int k" by simp
  have l: "run_loop (Suc fuel) E cfg ctx1 s
           = Some (Inl (if err = DeadlineExceeded then ErrTimeout else err))"
    using turns expired tc by auto
  have turns': "\<not> (MaxTurns cfg > 0 \<and> int k > MaxTurns cfg)" using turns by auto
  from Run_resume[OF start reach live turns', of "Suc fuel"] l
  have r: "Run (Suc (k + fuel)) E ctx agent messages cp config session sid
           = Some (None, Some (if err = DeadlineExceeded then ErrTimeout else err), session)"
    by (simp del: run_loop.simps)
  from Context_Err_cases[OF expired] have k: "err = DeadlineExceeded \<or> err = Canceled" .
  have c: "err = Canceled \<longrightarrow> Context_Err ctx ?t = Some Canceled"
    using expired x WithTimeout_Canceled[of ctx "start_time E" "Timeout cfg" ?t]
    by (auto split: if_splits)
  have d: "err = DeadlineExceeded \<longrightarrow>
            Context_Err ctx ?t = Some DeadlineExceeded \<or>
            (0 < Timeout cfg \<and> start_time E + nat (Timeout cfg) \<le> ?t)"
    using expired x WithTimeout_DeadlineExceeded[of ctx "start_time E" "Timeout cfg" ?t]
    by (auto split: if_splits)
  have t: "Timeout cfg \<le> 0 \<longrightarrow> Context_Err ctx ?t = Some err"
    using expired x by auto
  from r k c d t show ?thesis by auto
qed

text \<open>
  A configured timeout of five nanoseconds that has passed at the first turn; the same
  timeout passing during the first turn of a run that hands off, so that the run ends at the
  top of its second turn; and a caller that cancels a run without timeout.
\<close>

theorem expired_context_error_witness:
  "Context_Err (context_WithTimeout background 0 5) (clock slow_env 0) = Some DeadlineExceeded \<and>
   Run (Suc 0) slow_env background triage_agent
     [UserMessage ''I want a refund''] None (Some short_timeout) (None :: unit Session option) []
     = Some (None, Some ErrTimeout, None) \<and>
   0 < Timeout short_timeout \<and> start_time slow_env + nat (Timeout short_timeout) \<le> clock slow_env 0 \<and>
   state_after (Suc 0) late_env short_timeout (triage_start [UserMessage ''I want a refund''])
     = Some handoff_mid \<and>
   Context_Err (context_WithTimeout background 0 5) (clock late_env 0) = None \<and>
   Context_Err (context_WithTimeout background 0 5) (clock late_env (Suc 0)) = Some DeadlineExceeded \<and>
   Run (Suc (Suc 0)) late_env background triage_agent
     [UserMessage ''I want a refund''] None (Some short_timeout) (None :: unit Session option) []
     = Some (None, Some ErrTimeout, None) \<and>
   Context_Err caller_cancelled (clock (scripted_env answer_script) 0) = Some Canceled \<and>
   Timeout no_limits \<le> 0 \<and>
   Run (Suc 0) (scripted_env answer_script) caller_cancelled triage_agent
     [UserMessage ''I want a refund''] None (Some no_limits) (None :: unit Session option) []
     = Some (None, Some Canceled, None)"
proof -
  let ?s = "triage_start [UserMessage ''I want a refund'']"
  let ?x = "context_WithTimeout background 0 5"
  have b1: "before_loop slow_env background triage_agent [UserMessage ''I want a refund''] None
      (Some short_timeout) (None :: unit Session option) []
      = Inr (short_timeout, ?x, ?s)"
    by (simp add: before_loop_plain triage_start_def)
  have r1: "state_after 0 slow_env short_timeout ?s = Some ?s" by simp
  have l1: "\<forall>i<0. Context_Err ?x (clock slow_env i) = None" by simp
  have m1: "\<not> (MaxTurns short_timeout > 0 \<and> int 0 \<ge> MaxTurns short_timeout)" by simp
  have e1: "Context_Err ?x (clock slow_env 0) = Some DeadlineExceeded"
    by (simp add: Context_Err_def context_WithTimeout_def background_def)
  have b2: "before_loop late_env background triage_agent [UserMessage ''I want a refund''] None
      (Some short_timeout) (None :: unit Session option) []
      = Inr (short_timeout, ?x, ?s)"
    by (simp add: before_loop_plain triage_start_def)
  have r2: "state_after (Suc 0) late_env short_timeout ?s = Some handoff_mid"
    by (simp add: late_turn_1)
  have e20: "Context_Err ?x (clock late_env 0) = None"
    by (simp add: Context_Err_def context_WithTimeout_def background_def)
  then have l2: "\<forall>i<Suc 0. Context_Err ?x (clock late_env i) = None" by simp
  have m2: "\<not> (MaxTurns short_timeout > 0 \<and> int (Suc 0) \<ge> MaxTurns short_timeout)" by simp
  have e2: "Context_Err ?x (clock late_env (Suc 0)) = Some DeadlineExceeded"
    by (simp add: Context_Err_def context_WithTimeout_def background_def)
  have b3: "before_loop (scripted_env answer_script) caller_cancelled triage_agent
      [UserMessage ''I want a refund''] None (Some no_limits) (None :: unit Session option) []
      = Inr (no_limits, caller_cancelled, ?s)"
    by (simp add: before_loop_plain triage_start_def)
  have r3: "state_after 0 (scripted_env answer_script) no_limits ?s = Some ?s" by simp
  have l3: "\<forall>i<0. Context_Err caller_cancelled (clock (scripted_env answer_script) i) = None" by simp
  have m3: "\<not> (MaxTurns no_limits > 0 \<and> int 0 \<ge> MaxTurns no_limits)" by simp
  have e3: "Context_Err caller_cancelled (clock (scripted_env answer_script) 0) = Some Canceled"
    by (simp add: Context_Err_def caller_cancelled_def)
  from expired_context_error[OF b1 r1 l1 m1 e1, of 0]
    expired_context_error[OF b2 r2 l2 m2 e2, of 0]
    expired_context_error[OF b3 r3 l3 m3 e3, of 0] e1 e20 e2 e3 r2
  show ?thesis
    by (simp del: state_after.simps)
qed

text \<open>
  Claim C3 as stated fails: with no configured timeout, the expired deadline of the caller's
  context is reported as the timeout error.
\<close>

theorem caller_deadline_reported_as_timeout:
  "Timeout no_limits = 0 \<and>
   Context_Err caller_deadline 0 = Some DeadlineExceeded \<and>
   Run (Suc 0) (scripted_env answer_script) caller_deadline triage_agent
     [UserMessage ''I want a refund''] None (Some no_limits) (None :: unit Session option) []
   = Some (None, Some ErrTimeout, None)"
  by (simp add: Run_def before_loop_plain Context_Err_def caller_deadline_def)

end
